theory Spec2Isabelle
  imports Main "HOL-Library.Word"
begin

section \<open>JavaScript values used by the credential broker\<close>

text \<open>
  Strings of the TypeScript source are \<open>string\<close>; a \<open>Buffer\<close> is a list of bytes; a
  \<open>number\<close> holding a timestamp in milliseconds, a row id or a token lifetime is an
  \<open>int\<close>. An optional value (\<open>x?: T\<close>, a NULL column, \<open>undefined\<close>) is an \<open>option\<close>.
\<close>

type_synonym byte = "8 word"

text \<open>\<open>!s\<close> for an optional string: \<open>undefined\<close> and the empty string are falsy.\<close>

fun falsy_str :: "string option \<Rightarrow> bool" where
  "falsy_str None = True"
| "falsy_str (Some s) = (s = [])"

text \<open>\<open>a || b\<close> where \<open>a\<close> is an optional string and \<open>b\<close> a string.\<close>

fun str_or_else :: "string option \<Rightarrow> string \<Rightarrow> string" where
  "str_or_else None d = d"
| "str_or_else (Some s) d = (if s = [] then d else s)"

text \<open>\<open>a || b\<close> where \<open>a\<close> is an optional number: \<open>undefined\<close> and \<open>0\<close> are falsy.\<close>

fun num_or_else :: "int option \<Rightarrow> int \<Rightarrow> int" where
  "num_or_else None d = d"
| "num_or_else (Some n) d = (if n = 0 then d else n)"

text \<open>\<open>row.user_id || undefined\<close>: a NULL or zero id reads as \<open>undefined\<close>.\<close>

fun or_undefined :: "int option \<Rightarrow> int option" where
  "or_undefined None = None"
| "or_undefined (Some n) = (if n = 0 then None else Some n)"

text \<open>
  \<open>s.split(sep)\<close> for a one-character separator: the pieces between the separators, so
  the result is never empty and \<open>''''.split(sep)\<close> is \<open>['''']\<close>.
\<close>

fun split_on :: "char \<Rightarrow> string \<Rightarrow> string list" where
  "split_on sep [] = [[]]"
| "split_on sep (x # xs) =
     (if x = sep then [] # split_on sep xs
      else (case split_on sep xs of
              [] \<Rightarrow> [[x]]
            | p # ps \<Rightarrow> (x # p) # ps))"

text \<open>An array element read by destructuring: \<open>undefined\<close> past the end.\<close>

fun elem :: "'a list \<Rightarrow> nat \<Rightarrow> 'a option" where
  "elem [] n = None"
| "elem (x # xs) 0 = Some x"
| "elem (x # xs) (Suc n) = elem xs n"

text \<open>\<open>parts.join(sep)\<close>.\<close>

fun join :: "string \<Rightarrow> string list \<Rightarrow> string" where
  "join sep [] = []"
| "join sep [p] = p"
| "join sep (p # q # ps) = p @ sep @ join sep (q # ps)"

subsection \<open>Hexadecimal encoding of buffers\<close>

text \<open>\<open>buf.toString('hex')\<close>: two lower-case digits per byte.\<close>

definition hex_digit :: "nat \<Rightarrow> char" where
  "hex_digit n = ''0123456789abcdef'' ! (n mod 16)"

fun to_hex :: "byte list \<Rightarrow> string" where
  "to_hex [] = []"
| "to_hex (b # bs) = hex_digit (unat b div 16) # hex_digit (unat b mod 16) # to_hex bs"

text \<open>The value of a hexadecimal digit of either case, if it is one.\<close>

definition hex_val :: "char \<Rightarrow> nat option" where
  "hex_val c =
     (let n = (of_char c :: nat) in
      if 48 \<le> n \<and> n \<le> 57 then Some (n - 48)
      else if 97 \<le> n \<and> n \<le> 102 then Some (n - 87)
      else if 65 \<le> n \<and> n \<le> 70 then Some (n - 55)
      else None)"

text \<open>
  Decoding of a \<open>'hex'\<close> input: pairs of digits are read from the left, and decoding stops
  at the first pair that is not two hexadecimal digits (a trailing single character is
  dropped).
\<close>

fun from_hex :: "string \<Rightarrow> byte list" where
  "from_hex (c # d # cs) =
     (case (hex_val c, hex_val d) of
        (Some h, Some l) \<Rightarrow> of_nat (16 * h + l) # from_hex cs
      | _ \<Rightarrow> [])"
| "from_hex _ = []"

section \<open>Encryption service\<close>

text \<open>
  The primitives of Node's \<open>crypto\<close> module that \<open>EncryptionManager\<close> calls are
  parameters of the model, already applied to the process-wide key:
  \<^item> \<open>cipher_final data\<close> is \<open>createCipher('aes-256-cbc', key)\<close> followed by
    \<open>update(data, 'utf8')\<close> and \<open>final()\<close>, as raw bytes, or \<open>None\<close> when it throws;
  \<^item> \<open>decipher_final bytes\<close> is \<open>createDecipher('aes-256-cbc', key)\<close> followed by
    \<open>update(bytes)\<close> and \<open>final('utf8')\<close>, or \<open>None\<close> when it throws (bad padding,
    wrong length);
  \<^item> \<open>pbkdf2 password salt\<close> is \<open>pbkdf2Sync(password, salt, 100000, 64, 'sha512')\<close>.
  Neither cipher primitive takes an initialization vector: \<open>createCipher\<close> derives key
  and IV from its password argument alone.
\<close>

record crypto =
  cipher_final :: "string \<Rightarrow> byte list option"
  decipher_final :: "byte list \<Rightarrow> string option"
  pbkdf2 :: "string \<Rightarrow> byte list \<Rightarrow> byte list"

datatype auth_code =
  auth_reauth_required | auth_invalid_session | auth_expired | auth_scope_insufficient

record auth_error =
  code :: auth_code
  message :: string
  login_url :: "string option"
  missing_scopes :: "string list option"

text \<open>A thrown value: an \<open>AuthError\<close> (an \<open>Error\<close> carrying a \<open>code\<close>) or a plain \<open>Error\<close>.\<close>

datatype error = AuthErr auth_error | PlainError string

text \<open>
  \<open>encrypt(data)\<close>. The sixteen random bytes of \<open>randomBytes(16)\<close> are the argument
  \<open>iv\<close>; they are only prepended to the output. The text of the wrapped inner error is
  not modelled.
\<close>

definition encrypt :: "crypto \<Rightarrow> byte list \<Rightarrow> string \<Rightarrow> error + string" where
  "encrypt c iv data =
     (case cipher_final c data of
        None \<Rightarrow> Inl (PlainError ''Encryption failed'')
      | Some encrypted \<Rightarrow> Inr (to_hex iv @ '':'' @ to_hex encrypted))"

text \<open>
  \<open>decrypt(encryptedData)\<close>: the first two pieces of \<open>split(':')\<close> are \<open>ivHex\<close> and
  \<open>encrypted\<close>; \<open>Buffer.from(ivHex, 'hex')\<close> does not throw and its result is unused.
  \<open>decipher.update(encrypted, 'hex', 'utf8')\<close> throws on a hex string of odd length;
  every exception ends in the one \<open>Decryption failed\<close> error.
\<close>

definition decrypt :: "crypto \<Rightarrow> string \<Rightarrow> error + string" where
  "decrypt c encryptedData =
     (let parts = split_on CHR '':'' encryptedData;
          ivHex = elem parts 0;
          encrypted = elem parts 1
      in if falsy_str ivHex \<or> falsy_str encrypted
         then Inl (PlainError ''Decryption failed'')
         else (case encrypted of
                 None \<Rightarrow> Inl (PlainError ''Decryption failed'')
               | Some e \<Rightarrow>
                   if odd (length e) then Inl (PlainError ''Decryption failed'')
                   else (case decipher_final c (from_hex e) of
                           None \<Rightarrow> Inl (PlainError ''Decryption failed'')
                         | Some decrypted \<Rightarrow> Inr decrypted)))"

text \<open>
  \<open>hashPassword(password, salt?)\<close>: \<open>rnd\<close> stands for the bytes \<open>randomBytes(16)\<close>
  returns, used when no (non-empty) salt is passed. The result is \<open>(hash, salt)\<close>.
\<close>

definition hashPassword :: "crypto \<Rightarrow> byte list \<Rightarrow> string \<Rightarrow> string option \<Rightarrow> string \<times> string" where
  "hashPassword c rnd password salt =
     (let saltBuffer = (case salt of
                          None \<Rightarrow> rnd
                        | Some s \<Rightarrow> if s = [] then rnd else from_hex s)
      in (to_hex (pbkdf2 c password saltBuffer), to_hex saltBuffer))"

definition verifyPassword :: "crypto \<Rightarrow> byte list \<Rightarrow> string \<Rightarrow> string \<Rightarrow> string \<Rightarrow> bool" where
  "verifyPassword c rnd password hash salt =
     (fst (hashPassword c rnd password (Some salt)) = hash)"

definition maskToken :: "string \<Rightarrow> string" where
  "maskToken token =
     (if length token \<le> 8 then ''***''
      else take 4 token @ ''...'' @ drop (length token - 4) token)"

section \<open>Persistent store\<close>

text \<open>
  The four tables of \<open>XDatabase\<close>, each a list of rows in insertion order. A statement
  run with \<open>get\<close> returns the first row its \<open>WHERE\<close> clause selects. The current time
  \<open>Date.now()\<close> is the argument \<open>now\<close> of every operation that reads it. An
  \<open>INSERT\<close> that repeats a primary key throws. The store enforces its foreign keys:
  an \<open>UPDATE\<close> that would bind a pairing session to a user id without a row in
  \<open>users\<close> throws and changes nothing. The foreign keys of \<open>sessions\<close> and
  \<open>user_tokens\<close> are not modelled: \<open>createSession\<close> and \<open>saveUserTokens\<close> are
  modelled for the id of an existing user. The column \<open>completed\<close> (0 or 1) is a
  \<open>bool\<close>.
\<close>

record user =
  u_id :: int
  u_created_at :: int
  u_display_name :: string
  u_x_user_id :: string
  u_x_username :: string

record session =
  s_id :: string
  s_user_id :: int
  s_created_at :: int
  s_expires_at :: int
  s_session_secret_hash :: string

record user_token =
  t_user_id :: int
  t_provider :: string
  t_x_user_id :: string
  t_granted_scopes :: string
  t_access_token :: string
  t_refresh_token :: string
  t_expires_at :: int
  t_created_at :: int
  t_updated_at :: int

record pairing_session =
  p_pairing_code :: string
  p_created_at :: int
  p_expires_at :: int
  p_code_verifier :: string
  p_state :: string
  p_user_id :: "int option"
  p_completed :: bool

record database =
  users :: "user list"
  sessions :: "session list"
  user_tokens :: "user_token list"
  pairing_sessions :: "pairing_session list"

definition getUserById :: "database \<Rightarrow> int \<Rightarrow> user option" where
  "getUserById db i = find (\<lambda>u. u_id u = i) (users db)"

text \<open>\<open>XDatabase.createSession\<close>; the default lifetime is thirty days.\<close>

definition db_createSession ::
  "database \<Rightarrow> int \<Rightarrow> int \<Rightarrow> string \<Rightarrow> string \<Rightarrow> int option \<Rightarrow> error + database \<times> session" where
  "db_createSession db now userId sessionId sessionSecretHash expiresAt =
     (let expires = num_or_else expiresAt (now + 30 * 24 * 60 * 60 * 1000);
          row = \<lparr> s_id = sessionId, s_user_id = userId, s_created_at = now,
                  s_expires_at = expires, s_session_secret_hash = sessionSecretHash \<rparr>
      in if find (\<lambda>r. s_id r = sessionId) (sessions db) = None
         then Inr (db\<lparr>sessions := sessions db @ [row]\<rparr>, row)
         else Inl (PlainError ''UNIQUE constraint failed: sessions.id''))"

definition getSession :: "database \<Rightarrow> int \<Rightarrow> string \<Rightarrow> session option" where
  "getSession db now sessionId =
     find (\<lambda>r. s_id r = sessionId \<and> now < s_expires_at r) (sessions db)"

definition deleteSession :: "database \<Rightarrow> string \<Rightarrow> database" where
  "deleteSession db sessionId =
     db\<lparr>sessions := filter (\<lambda>r. s_id r \<noteq> sessionId) (sessions db)\<rparr>"

definition cleanupExpiredSessions :: "database \<Rightarrow> int \<Rightarrow> database" where
  "cleanupExpiredSessions db now =
     db\<lparr>sessions := filter (\<lambda>r. \<not> s_expires_at r \<le> now) (sessions db)\<rparr>"

text \<open>The fields of a token row that the caller of \<open>saveUserTokens\<close> supplies.\<close>

record token_fields =
  f_x_user_id :: string
  f_granted_scopes :: string
  f_access_token :: string
  f_refresh_token :: string
  f_expires_at :: int

definition getUserTokens :: "database \<Rightarrow> int \<Rightarrow> user_token option" where
  "getUserTokens db userId = find (\<lambda>r. t_user_id r = userId) (user_tokens db)"

text \<open>
  \<open>INSERT OR REPLACE\<close>: the row of the user, if any, is removed and the new row
  added; \<open>created_at\<close> is the old row's when there was one.
\<close>

definition saveUserTokens :: "database \<Rightarrow> int \<Rightarrow> int \<Rightarrow> token_fields \<Rightarrow> database" where
  "saveUserTokens db now userId tokenData =
     (let created = (case getUserTokens db userId of
                       None \<Rightarrow> now
                     | Some old \<Rightarrow> t_created_at old);
          row = \<lparr> t_user_id = userId, t_provider = ''x'',
                  t_x_user_id = f_x_user_id tokenData,
                  t_granted_scopes = f_granted_scopes tokenData,
                  t_access_token = f_access_token tokenData,
                  t_refresh_token = f_refresh_token tokenData,
                  t_expires_at = f_expires_at tokenData,
                  t_created_at = created, t_updated_at = now \<rparr>
      in db\<lparr>user_tokens := filter (\<lambda>r. t_user_id r \<noteq> userId) (user_tokens db) @ [row]\<rparr>)"

definition deleteUserTokens :: "database \<Rightarrow> int \<Rightarrow> database" where
  "deleteUserTokens db userId =
     db\<lparr>user_tokens := filter (\<lambda>r. t_user_id r \<noteq> userId) (user_tokens db)\<rparr>"

text \<open>\<open>createPairingSession\<close>; the default lifetime is ten minutes.\<close>

definition createPairingSession ::
  "database \<Rightarrow> int \<Rightarrow> string \<Rightarrow> string \<Rightarrow> string \<Rightarrow> int option
     \<Rightarrow> error + database \<times> pairing_session" where
  "createPairingSession db now pairingCode codeVerifier state expiresAt =
     (let expires = num_or_else expiresAt (now + 10 * 60 * 1000);
          row = \<lparr> p_pairing_code = pairingCode, p_created_at = now, p_expires_at = expires,
                  p_code_verifier = codeVerifier, p_state = state,
                  p_user_id = None, p_completed = False \<rparr>
      in if find (\<lambda>r. p_pairing_code r = pairingCode) (pairing_sessions db) = None
         then Inr (db\<lparr>pairing_sessions := pairing_sessions db @ [row]\<rparr>, row)
         else Inl (PlainError ''UNIQUE constraint failed: pairing_sessions.pairing_code''))"

definition getPairingSession :: "database \<Rightarrow> int \<Rightarrow> string \<Rightarrow> pairing_session option" where
  "getPairingSession db now pairingCode =
     (case find (\<lambda>r. p_pairing_code r = pairingCode \<and> now < p_expires_at r)
             (pairing_sessions db) of
        None \<Rightarrow> None
      | Some row \<Rightarrow> Some (row\<lparr>p_user_id := or_undefined (p_user_id row)\<rparr>))"

text \<open>
  \<open>completePairingSession\<close>: the \<open>UPDATE\<close> selects by code and expiry only, and the
  number of rows it changed is not read. When it selects a row and the user id has no
  row in \<open>users\<close>, the foreign key of \<open>pairing_sessions.user_id\<close> fails: the statement
  throws and no row is changed. When it selects no row, nothing is checked.
\<close>

definition completePairingSession ::
  "database \<Rightarrow> int \<Rightarrow> string \<Rightarrow> int \<Rightarrow> error + database" where
  "completePairingSession db now pairingCode userId =
     (if find (\<lambda>r. p_pairing_code r = pairingCode \<and> now < p_expires_at r)
            (pairing_sessions db) \<noteq> None
         \<and> getUserById db userId = None
      then Inl (PlainError ''FOREIGN KEY constraint failed'')
      else Inr (db\<lparr>pairing_sessions :=
                  map (\<lambda>r. if p_pairing_code r = pairingCode \<and> now < p_expires_at r
                            then r\<lparr>p_user_id := Some userId, p_completed := True\<rparr>
                            else r)
                      (pairing_sessions db)\<rparr>))"

definition deletePairingSession :: "database \<Rightarrow> string \<Rightarrow> database" where
  "deletePairingSession db pairingCode =
     db\<lparr>pairing_sessions :=
          filter (\<lambda>r. p_pairing_code r \<noteq> pairingCode) (pairing_sessions db)\<rparr>"

definition cleanupExpiredPairingSessions :: "database \<Rightarrow> int \<Rightarrow> database" where
  "cleanupExpiredPairingSessions db now =
     db\<lparr>pairing_sessions :=
          filter (\<lambda>r. \<not> p_expires_at r \<le> now) (pairing_sessions db)\<rparr>"

section \<open>Session manager\<close>

text \<open>
  The random values a call draws are arguments: \<open>sessionId\<close> is the result of
  \<open>uuidv4()\<close>, \<open>sessionSecret\<close> that of \<open>generateSecureToken()\<close>, and \<open>rnd\<close> the bytes of
  the \<open>randomBytes(16)\<close> inside \<open>hashPassword\<close>.
\<close>

definition hashSessionSecret :: "crypto \<Rightarrow> byte list \<Rightarrow> string \<Rightarrow> string" where
  "hashSessionSecret c rnd secret = fst (hashPassword c rnd secret None)"

definition verifySessionSecret :: "crypto \<Rightarrow> byte list \<Rightarrow> string \<Rightarrow> string \<Rightarrow> bool" where
  "verifySessionSecret c rnd secret hash =
     (let parts = split_on CHR '':'' hash;
          hashPart = elem parts 0;
          saltPart = elem parts 1
      in if falsy_str saltPart
         then fst (hashPassword c rnd secret None) = hash
         else (case (hashPart, saltPart) of
                 (Some h, Some sl) \<Rightarrow> verifyPassword c rnd secret h sl
               | _ \<Rightarrow> False))"

definition createSession ::
  "crypto \<Rightarrow> database \<Rightarrow> int \<Rightarrow> int \<Rightarrow> int option \<Rightarrow> string \<Rightarrow> string \<Rightarrow> byte list
     \<Rightarrow> error + database \<times> string \<times> string" where
  "createSession c db now userId expiresAt sessionId sessionSecret rnd =
     (let sessionSecretHash = hashSessionSecret c rnd sessionSecret
      in case db_createSession db now userId sessionId sessionSecretHash expiresAt of
           Inl e \<Rightarrow> Inl e
         | Inr (db', row) \<Rightarrow> Inr (db', sessionId, sessionSecret))"

definition validateSession ::
  "crypto \<Rightarrow> database \<Rightarrow> int \<Rightarrow> byte list \<Rightarrow> string \<Rightarrow> string option \<Rightarrow> session option" where
  "validateSession c db now rnd sessionId sessionSecret =
     (case getSession db now sessionId of
        None \<Rightarrow> None
      | Some session \<Rightarrow>
          (case sessionSecret of
             None \<Rightarrow> Some session
           | Some secret \<Rightarrow>
               if secret = [] then Some session
               else if \<not> verifySessionSecret c rnd secret (s_session_secret_hash session)
               then None
               else Some session))"

section \<open>Token manager\<close>

record config =
  clientId :: string
  clientSecret :: string
  redirectUri :: string
  hostedMode :: "bool option"
  baseUrl :: "string option"

record token_data =
  td_access_token :: string
  td_refresh_token :: string
  td_expires_at :: int
  td_scope :: string

definition getToolScopes :: "string \<Rightarrow> string list" where
  "getToolScopes toolName =
     (if toolName = ''bookmarks.list'' then [''bookmark.read'', ''bookmarks.read'']
      else if toolName = ''bookmarks.add'' \<or> toolName = ''bookmarks.remove''
      then [''bookmark.write'']
      else if toolName = ''tweet.create'' then [''tweet.write'']
      else [''users.read''])"

definition checkScopes :: "string \<Rightarrow> string list \<Rightarrow> string list" where
  "checkScopes grantedScopes requiredScopes =
     (let granted = split_on CHR '' '' grantedScopes
      in filter (\<lambda>required.
            if required = ''bookmark.read''
            then ''bookmark.read'' \<notin> set granted \<and> ''bookmarks.read'' \<notin> set granted
            else required \<notin> set granted)
          requiredScopes)"

definition createAuthError ::
  "auth_code \<Rightarrow> string \<Rightarrow> string option \<Rightarrow> string list option \<Rightarrow> error" where
  "createAuthError cd msg loginUrl missingScopes =
     AuthErr \<lparr> code = cd, message = msg, login_url = loginUrl,
               missing_scopes = missingScopes \<rparr>"

text \<open>\<open>this.config.hostedMode && this.config.baseUrl\<close> as a condition.\<close>

definition hosted_base :: "config \<Rightarrow> string option" where
  "hosted_base cfg =
     (if hostedMode cfg = Some True \<and> \<not> falsy_str (baseUrl cfg) then baseUrl cfg else None)"

definition getLoginUrl :: "config \<Rightarrow> string" where
  "getLoginUrl cfg =
     (case hosted_base cfg of
        Some base \<Rightarrow> base @ ''/auth/start''
      | None \<Rightarrow> ''Please run: npm run auth'')"

text \<open>
  \<open>encodeURIComponent\<close> on the bytes of a string: letters, digits and
  \<open>- _ . ! ~ * ' ( )\<close> are kept, every other byte becomes \<open>%XX\<close>.
\<close>

definition uri_unreserved :: "char \<Rightarrow> bool" where
  "uri_unreserved ch =
     (let n = (of_char ch :: nat) in
      (48 \<le> n \<and> n \<le> 57) \<or> (65 \<le> n \<and> n \<le> 90) \<or> (97 \<le> n \<and> n \<le> 122)
      \<or> ch \<in> set ''-_.!~*'()'')"

definition upper_hex_digit :: "nat \<Rightarrow> char" where
  "upper_hex_digit n = ''0123456789ABCDEF'' ! (n mod 16)"

fun encodeURIComponent :: "string \<Rightarrow> string" where
  "encodeURIComponent [] = []"
| "encodeURIComponent (ch # cs) =
     (if uri_unreserved ch then ch # encodeURIComponent cs
      else CHR ''%'' # upper_hex_digit ((of_char ch :: nat) div 16)
             # upper_hex_digit ((of_char ch :: nat) mod 16) # encodeURIComponent cs)"

definition getReAuthUrl :: "config \<Rightarrow> string list \<Rightarrow> string" where
  "getReAuthUrl cfg missingScopes =
     (case hosted_base cfg of
        Some base \<Rightarrow>
          base @ ''/auth/start?additional_scopes='' @ encodeURIComponent (join '','' missingScopes)
      | None \<Rightarrow>
          ''Please re-authenticate with additional scopes: '' @ join '', '' missingScopes)"

text \<open>
  The token endpoint. A refresh sends one request; \<open>fetch\<close> either throws (a network
  failure), or answers with a status that is not \<open>ok\<close> and a body text, or answers \<open>ok\<close>
  with a JSON body. The body of an \<open>ok\<close> answer carries \<open>access_token\<close> and
  \<open>expires_in\<close>; \<open>refresh_token\<close> and \<open>scope\<close> may be absent.
\<close>

record refresh_request =
  rq_refresh_token :: string
  rq_client_id :: string
  rq_client_secret :: string

record token_response =
  tr_access_token :: string
  tr_refresh_token :: "string option"
  tr_expires_in :: int
  tr_scope :: "string option"

datatype fetch_result = FetchThrows | NotOk string | Ok token_response

text \<open>
  What one refresh reads from its environment, in the order of the reads: the clock when
  the new expiry is computed, the random bytes of the two \<open>encrypt\<close> calls, and the
  clock inside \<open>saveUserTokens\<close>.
\<close>

record refresh_env =
  now_refresh :: int
  iv_access :: "byte list"
  iv_refresh :: "byte list"
  now_save :: int

definition network_error :: "config \<Rightarrow> error" where
  "network_error cfg =
     createAuthError auth_reauth_required
       ''Network error during token refresh. Please try again or re-authenticate.''
       (Some (getLoginUrl cfg)) None"

text \<open>
  \<open>refreshTokens\<close>. An exception that carries no \<open>code\<close> (a failed \<open>fetch\<close>, a failed
  \<open>encrypt\<close>) is caught and replaced by the network error.
\<close>

definition refreshTokens ::
  "crypto \<Rightarrow> config \<Rightarrow> (refresh_request \<Rightarrow> fetch_result) \<Rightarrow> refresh_env \<Rightarrow> database
     \<Rightarrow> user \<Rightarrow> token_data \<Rightarrow> (error + token_data) \<times> database" where
  "refreshTokens c cfg fetch env db usr currentTokens =
     (case fetch \<lparr> rq_refresh_token = td_refresh_token currentTokens,
                   rq_client_id = clientId cfg, rq_client_secret = clientSecret cfg \<rparr> of
        FetchThrows \<Rightarrow> (Inl (network_error cfg), db)
      | NotOk errorText \<Rightarrow>
          (Inl (createAuthError auth_reauth_required
                  ''Token refresh failed. Please re-authenticate.''
                  (Some (getLoginUrl cfg)) None),
           deleteUserTokens db (u_id usr))
      | Ok tokenResponse \<Rightarrow>
          (let newTokens =
                 \<lparr> td_access_token = tr_access_token tokenResponse,
                   td_refresh_token =
                     str_or_else (tr_refresh_token tokenResponse) (td_refresh_token currentTokens),
                   td_expires_at = now_refresh env + tr_expires_in tokenResponse * 1000,
                   td_scope = str_or_else (tr_scope tokenResponse) (td_scope currentTokens) \<rparr>
           in case encrypt c (iv_access env) (td_access_token newTokens) of
                Inl e \<Rightarrow> (Inl (network_error cfg), db)
              | Inr encAccess \<Rightarrow>
                  (case encrypt c (iv_refresh env) (td_refresh_token newTokens) of
                     Inl e \<Rightarrow> (Inl (network_error cfg), db)
                   | Inr encRefresh \<Rightarrow>
                       (Inr newTokens,
                        saveUserTokens db (now_save env) (u_id usr)
                          \<lparr> f_x_user_id = u_x_user_id usr,
                            f_granted_scopes = td_scope newTokens,
                            f_access_token = encAccess,
                            f_refresh_token = encRefresh,
                            f_expires_at = td_expires_at newTokens \<rparr>))))"

text \<open>
  \<open>getValidAccessToken\<close>. The result is the outcome (the access token, or what was
  thrown), the store afterwards, and whether \<open>refreshTokens\<close> was called.
\<close>

definition getValidAccessToken ::
  "crypto \<Rightarrow> config \<Rightarrow> (refresh_request \<Rightarrow> fetch_result) \<Rightarrow> int \<Rightarrow> refresh_env \<Rightarrow> database
     \<Rightarrow> user \<Rightarrow> string list option \<Rightarrow> (error + string) \<times> database \<times> bool" where
  "getValidAccessToken c cfg fetch now env db usr requiredScopes =
     (case getUserTokens db (u_id usr) of
        None \<Rightarrow>
          (Inl (createAuthError auth_reauth_required
                  (''No tokens found for user '' @ u_x_username usr @ ''. Please authenticate.'')
                  (Some (getLoginUrl cfg)) None),
           db, False)
      | Some tokens \<Rightarrow>
          (case (decrypt c (t_access_token tokens), decrypt c (t_refresh_token tokens)) of
             (Inr access, Inr refresh) \<Rightarrow>
               (let decryptedTokens =
                      \<lparr> td_access_token = access, td_refresh_token = refresh,
                        td_expires_at = t_expires_at tokens,
                        td_scope = t_granted_scopes tokens \<rparr>;
                    missingScopes =
                      (case requiredScopes of
                         None \<Rightarrow> []
                       | Some required \<Rightarrow> checkScopes (td_scope decryptedTokens) required)
                in if length missingScopes > 0
                   then (Inl (createAuthError auth_scope_insufficient
                                (''Missing required scopes: '' @ join '', '' missingScopes)
                                (Some (getReAuthUrl cfg missingScopes)) (Some missingScopes)),
                         db, False)
                   else if now \<ge> td_expires_at decryptedTokens - 60000
                   then (case refreshTokens c cfg fetch env db usr decryptedTokens of
                           (Inl e, db') \<Rightarrow> (Inl e, db', True)
                         | (Inr newTokens, db') \<Rightarrow> (Inr (td_access_token newTokens), db', True))
                   else (Inr (td_access_token decryptedTokens), db, False))
           | _ \<Rightarrow>
               (Inl (createAuthError auth_reauth_required
                       ''Token decryption failed. Please re-authenticate.''
                       (Some (getLoginUrl cfg)) None),
                db, False)))"

definition validateToolAccess ::
  "crypto \<Rightarrow> config \<Rightarrow> (refresh_request \<Rightarrow> fetch_result) \<Rightarrow> int \<Rightarrow> refresh_env \<Rightarrow> database
     \<Rightarrow> user \<Rightarrow> string \<Rightarrow> (error + string) \<times> database \<times> bool" where
  "validateToolAccess c cfg fetch now env db usr toolName =
     getValidAccessToken c cfg fetch now env db usr (Some (getToolScopes toolName))"

section \<open>OAuth flow controller: pairing status\<close>

record status_user =
  su_id :: int
  su_display_name :: string
  su_x_username :: string

record auth_status =
  verified :: bool
  status_user :: "status_user option"

text \<open>\<open>!n\<close> for an optional number.\<close>

fun falsy_num :: "int option \<Rightarrow> bool" where
  "falsy_num None = True"
| "falsy_num (Some n) = (n = 0)"

definition checkPairingStatus :: "database \<Rightarrow> int \<Rightarrow> string \<Rightarrow> auth_status" where
  "checkPairingStatus db now pairingCode =
     (case getPairingSession db now pairingCode of
        None \<Rightarrow> \<lparr> verified = False, status_user = None \<rparr>
      | Some session \<Rightarrow>
          if \<not> p_completed session \<or> falsy_num (p_user_id session)
          then \<lparr> verified = False, status_user = None \<rparr>
          else (case p_user_id session of
                  None \<Rightarrow> \<lparr> verified = False, status_user = None \<rparr>
                | Some uid \<Rightarrow>
                    (case getUserById db uid of
                       None \<Rightarrow> \<lparr> verified = False, status_user = None \<rparr>
                     | Some usr \<Rightarrow>
                         \<lparr> verified = True,
                           status_user = Some \<lparr> su_id = u_id usr,
                                                 su_display_name = u_display_name usr,
                                                 su_x_username = u_x_username usr \<rparr> \<rparr>)))"

text \<open>
  The operations of the store on pairing sessions, as a caller can issue them one after
  another; a statement that throws leaves the store as it was.
\<close>

datatype pairing_op =
    CreatePairing int string string string "int option"
  | CompletePairing int string int
  | DeletePairing string
  | CleanupPairing int

fun apply_pairing_op :: "database \<Rightarrow> pairing_op \<Rightarrow> database" where
  "apply_pairing_op db (CreatePairing now pc verifier state expiresAt) =
     (case createPairingSession db now pc verifier state expiresAt of
        Inl e \<Rightarrow> db
      | Inr (db', row) \<Rightarrow> db')"
| "apply_pairing_op db (CompletePairing now pc userId) =
     (case completePairingSession db now pc userId of
        Inl e \<Rightarrow> db
      | Inr db' \<Rightarrow> db')"
| "apply_pairing_op db (DeletePairing pc) = deletePairingSession db pc"
| "apply_pairing_op db (CleanupPairing now) = cleanupExpiredPairingSessions db now"

fun apply_pairing_ops :: "database \<Rightarrow> pairing_op list \<Rightarrow> database" where
  "apply_pairing_ops db [] = db"
| "apply_pairing_ops db (x # xs) = apply_pairing_ops (apply_pairing_op db x) xs"

text \<open>Whether an operation inserts a pairing session under the given code.\<close>

fun creates_code :: "string \<Rightarrow> pairing_op \<Rightarrow> bool" where
  "creates_code pc (CreatePairing now pc' verifier state expiresAt) = (pc' = pc)"
| "creates_code pc _ = False"

section \<open>Notions used in the statements\<close>

text \<open>
  A cipher with the properties the broker relies on: encryption never throws, its
  output is not empty, and decryption inverts it.
\<close>

definition sound_cipher :: "crypto \<Rightarrow> bool" where
  "sound_cipher c =
     (\<forall>x. \<exists>ct. cipher_final c x = Some ct \<and> ct \<noteq> [] \<and> decipher_final c ct = Some x)"

text \<open>
  No row with the given code outlives \<open>t0\<close>: every row is of another code or has
  \<open>expires_at\<close> at or before \<open>t0\<close>.
\<close>

definition code_expired :: "string \<Rightarrow> int \<Rightarrow> database \<Rightarrow> bool" where
  "code_expired pc t0 db =
     list_all (\<lambda>r. p_pairing_code r \<noteq> pc \<or> p_expires_at r \<le> t0) (pairing_sessions db)"

text \<open>Whether an outcome is an \<open>AuthError\<close> with the code \<open>auth_reauth_required\<close>.\<close>

definition is_reauth :: "error + 'a \<Rightarrow> bool" where
  "is_reauth r =
     (case r of
        Inl (AuthErr e) \<Rightarrow> code e = auth_reauth_required
      | Inl (PlainError m) \<Rightarrow> False
      | Inr v \<Rightarrow> False)"

text \<open>The scopes \<open>getValidAccessToken\<close> finds missing for its optional argument.\<close>

definition missing_for :: "string list option \<Rightarrow> string \<Rightarrow> string list" where
  "missing_for requiredScopes granted =
     (case requiredScopes of
        None \<Rightarrow> []
      | Some required \<Rightarrow> checkScopes granted required)"

section \<open>Concrete inputs for evaluation\<close>

text \<open>
  A small stand-in for the primitives, used where the model is evaluated on concrete
  inputs. It is not AES: the cipher frames the text with a leading byte, and the
  key-derivation function appends the password to the salt.
\<close>

definition sample_crypto :: crypto where
  "sample_crypto =
     \<lparr> cipher_final = (\<lambda>s. Some (1 # map (\<lambda>ch. of_nat (of_char ch)) s)),
       decipher_final = (\<lambda>bs. case bs of
                                 [] \<Rightarrow> None
                               | b # r \<Rightarrow> if b = 1 then Some (map (\<lambda>w. char_of (unat w)) r)
                                          else None),
       pbkdf2 = (\<lambda>p salt. salt @ map (\<lambda>ch. of_nat (of_char ch)) p) \<rparr>"

definition sample_user :: user where
  "sample_user =
     \<lparr> u_id = 1, u_created_at = 0, u_display_name = ''Alice'',
       u_x_user_id = ''u1'', u_x_username = ''alice'' \<rparr>"

definition sample_user2 :: user where
  "sample_user2 =
     \<lparr> u_id = 2, u_created_at = 0, u_display_name = ''Bob'',
       u_x_user_id = ''u2'', u_x_username = ''bob'' \<rparr>"

definition sample_pairing :: pairing_session where
  "sample_pairing =
     \<lparr> p_pairing_code = ''ABCDEFGH'', p_created_at = 0, p_expires_at = 600000,
       p_code_verifier = ''verifier'', p_state = ''state'',
       p_user_id = None, p_completed = False \<rparr>"

definition sample_session :: session where
  "sample_session =
     \<lparr> s_id = ''sid-1'', s_user_id = 1, s_created_at = 0, s_expires_at = 5000,
       s_session_secret_hash = ''00'' \<rparr>"

definition sample_db :: database where
  "sample_db =
     \<lparr> users = [sample_user, sample_user2], sessions = [sample_session], user_tokens = [],
       pairing_sessions = [sample_pairing] \<rparr>"

definition sample_iv :: "byte list" where
  "sample_iv = [0, 1, 2, 3, 4, 5, 6, 7, 8, 9, 10, 11, 12, 13, 14, 15]"

definition sample_iv2 :: "byte list" where
  "sample_iv2 = [255, 1, 2, 3, 4, 5, 6, 7, 8, 9, 10, 11, 12, 13, 14, 15]"

text \<open>
  The sample store after \<open>createSession\<close> for user 1 at time 0, with the session id
  \<open>sid-2\<close>, the secret \<open>s3cret\<close> and the salt bytes \<open>sample_iv\<close> drawn.
\<close>

definition sample_db2 :: database where
  "sample_db2 =
     sample_db\<lparr>sessions :=
       [sample_session,
        \<lparr> s_id = ''sid-2'', s_user_id = 1, s_created_at = 0, s_expires_at = 2592000000,
          s_session_secret_hash = hashSessionSecret sample_crypto sample_iv ''s3cret'' \<rparr>]\<rparr>"

text \<open>
  A token row for the sample user: under the sample cipher the stored texts decrypt to
  \<open>AT\<close> and \<open>RT\<close>; the token expires at 130000.
\<close>

definition sample_token_row :: user_token where
  "sample_token_row =
     \<lparr> t_user_id = 1, t_provider = ''x'', t_x_user_id = ''u1'',
       t_granted_scopes = ''users.read tweet.read'',
       t_access_token = ''00:014154'', t_refresh_token = ''00:015254'',
       t_expires_at = 130000, t_created_at = 0, t_updated_at = 0 \<rparr>"

definition sample_tokens_db :: database where
  "sample_tokens_db = sample_db\<lparr>user_tokens := [sample_token_row]\<rparr>"

definition sample_cfg :: config where
  "sample_cfg =
     \<lparr> clientId = ''client'', clientSecret = ''secret'',
       redirectUri = ''http://127.0.0.1:3000/auth/x/cb'',
       hostedMode = None, baseUrl = None \<rparr>"

definition sample_env :: refresh_env where
  "sample_env =
     \<lparr> now_refresh = 100001, iv_access = sample_iv, iv_refresh = sample_iv2,
       now_save = 100002 \<rparr>"

definition sample_response :: token_response where
  "sample_response =
     \<lparr> tr_access_token = ''AT2'', tr_refresh_token = None, tr_expires_in = 7200,
       tr_scope = None \<rparr>"


text \<open>The sample store with the singular read scope granted, as the provider names it.\<close>

definition sample_singular_db :: database where
  "sample_singular_db =
     sample_db\<lparr>user_tokens :=
       [sample_token_row\<lparr>t_granted_scopes := ''users.read bookmark.read''\<rparr>]\<rparr>"

section \<open>Properties of the encodings\<close>

lemma hex_table:
  "\<forall>n \<in> set [0..<16]. hex_digit n \<noteq> CHR '':'' \<and> hex_val (hex_digit n) = Some n"
  by code_simp

lemma hex_digit_not_colon: "hex_digit n \<noteq> CHR '':''"
proof -
  have "n mod 16 \<in> set [0..<16]" by simp
  then have "hex_digit (n mod 16) \<noteq> CHR '':''" using hex_table by blast
  then show ?thesis by (simp add: hex_digit_def)
qed

lemma to_hex_no_colon: "CHR '':'' \<notin> set (to_hex bs)"
proof (induction bs)
  case Nil
  show ?case by simp
next
  case (Cons b bs)
  then show ?case
    using hex_digit_not_colon [of "unat b div 16"] hex_digit_not_colon [of "unat b mod 16"]
    by auto
qed

lemma hex_val_hex_digit: "n < 16 \<Longrightarrow> hex_val (hex_digit n) = Some n"
  using hex_table by simp

lemma from_hex_to_hex: "from_hex (to_hex bs) = bs"
proof (induction bs)
  case Nil
  show ?case by simp
next
  case (Cons b bs)
  have "unat b < 256"
    using unsigned_less [of b] by simp
  then have hi: "unat b div 16 < 16"
    by simp
  have whole: "of_nat (16 * (unat b div 16) + unat b mod 16) = b"
    by simp
  from Cons hi whole show ?case
    by (simp add: hex_val_hex_digit)
qed

lemma to_hex_inj: "to_hex xs = to_hex ys \<Longrightarrow> xs = ys"
  by (metis from_hex_to_hex)

lemma to_hex_empty: "to_hex bs = [] \<longleftrightarrow> bs = []"
  by (cases bs) simp_all

lemma even_length_to_hex: "even (length (to_hex bs))"
  by (induction bs) simp_all

lemma split_on_nonempty: "split_on sep s \<noteq> []"
  by (induction s) (auto split: list.splits)

lemma split_on_no_sep: "sep \<notin> set s \<Longrightarrow> split_on sep s = [s]"
  by (induction s) auto

lemma split_on_append:
  "sep \<notin> set a \<Longrightarrow> split_on sep (a @ sep # b) = a # split_on sep b"
  by (induction a) auto

section \<open>Lookups under row-wise updates\<close>

lemma find_map_stable:
  "(\<And>x. P (f x) = P x) \<Longrightarrow> find P (map f xs) = map_option f (find P xs)"
  by (induction xs) auto

lemma find_None_map_id:
  "find P xs = None \<Longrightarrow> map (\<lambda>r. if P r then g r else r) xs = xs"
  by (induction xs) (auto split: if_splits)

lemma find_map_other:
  "(\<And>x. Q (f x) = Q x) \<Longrightarrow> (\<And>x. Q x \<Longrightarrow> f x = x) \<Longrightarrow> find Q (map f xs) = find Q xs"
  by (induction xs) auto

lemma find_snoc:
  "find P (xs @ [y]) = (case find P xs of None \<Rightarrow> (if P y then Some y else None) | Some x \<Rightarrow> Some x)"
  by (induction xs) auto

lemma find_None_weaken:
  "find P xs = None \<Longrightarrow> find (\<lambda>r. P r \<and> Q r) xs = None"
  by (induction xs) (auto split: if_splits)

lemma find_filter_not: "find P (filter (\<lambda>x. \<not> P x) xs) = None"
  by (induction xs) auto

lemma find_filter_same:
  "(\<And>x. P x \<Longrightarrow> K x) \<Longrightarrow> find P (filter K xs) = find P xs"
  by (induction xs) auto

section \<open>Completion of a pairing session\<close>

text \<open>
  Claim C1, as the code has it. \<open>completePairingSession\<close> changes nothing when the
  code does not resolve at the time of the call (no row with that code, or its
  \<open>expires_at\<close> has passed): it returns, and the store is as it was, bound user id and
  completed flag included. When the code resolves and the user id has no row in
  \<open>users\<close>, the call throws and changes nothing. When the code resolves and the user
  exists, the row is bound to that user and marked completed, whether or not it was
  completed before; rows of other codes and the other tables are untouched.
\<close>

theorem completePairingSession_effect:
  "(getPairingSession db now pc = None \<longrightarrow> completePairingSession db now pc uid = Inr db) \<and>
   (\<forall>p. getPairingSession db now pc = Some p \<and> getUserById db uid = None \<longrightarrow>
        completePairingSession db now pc uid =
          Inl (PlainError ''FOREIGN KEY constraint failed'')) \<and>
   (\<forall>p u. getPairingSession db now pc = Some p \<and> getUserById db uid = Some u \<longrightarrow>
        (\<exists>db'. completePairingSession db now pc uid = Inr db' \<and>
           getPairingSession db' now pc =
             Some (p\<lparr>p_user_id := or_undefined (Some uid), p_completed := True\<rparr>) \<and>
           (\<forall>pc' t. pc' \<noteq> pc \<longrightarrow> getPairingSession db' t pc' = getPairingSession db t pc') \<and>
           users db' = users db \<and> sessions db' = sessions db \<and>
           user_tokens db' = user_tokens db))"
proof -
  let ?P = "\<lambda>r. p_pairing_code r = pc \<and> now < p_expires_at r"
  let ?f = "\<lambda>r. if ?P r then r\<lparr>p_user_id := Some uid, p_completed := True\<rparr> else r"
  let ?db' = "db\<lparr>pairing_sessions := map ?f (pairing_sessions db)\<rparr>"
  have noop: "getPairingSession db now pc = None \<longrightarrow> completePairingSession db now pc uid = Inr db"
  proof
    assume "getPairingSession db now pc = None"
    then have none: "find ?P (pairing_sessions db) = None"
      by (simp add: getPairingSession_def split: option.splits)
    then have "map ?f (pairing_sessions db) = pairing_sessions db"
      by (rule find_None_map_id)
    with none show "completePairingSession db now pc uid = Inr db"
      by (simp add: completePairingSession_def)
  qed
  have fk: "\<forall>p. getPairingSession db now pc = Some p \<and> getUserById db uid = None \<longrightarrow>
        completePairingSession db now pc uid =
          Inl (PlainError ''FOREIGN KEY constraint failed'')"
    by (auto simp: getPairingSession_def completePairingSession_def split: option.splits)
  have stable: "\<And>x. ?P (?f x) = ?P x" by simp
  have live: "\<forall>p u. getPairingSession db now pc = Some p \<and> getUserById db uid = Some u \<longrightarrow>
        (\<exists>db'. completePairingSession db now pc uid = Inr db' \<and>
           getPairingSession db' now pc =
             Some (p\<lparr>p_user_id := or_undefined (Some uid), p_completed := True\<rparr>) \<and>
           (\<forall>pc' t. pc' \<noteq> pc \<longrightarrow> getPairingSession db' t pc' = getPairingSession db t pc') \<and>
           users db' = users db \<and> sessions db' = sessions db \<and>
           user_tokens db' = user_tokens db)"
  proof (intro allI impI)
    fix p u assume a: "getPairingSession db now pc = Some p \<and> getUserById db uid = Some u"
    then obtain row where row: "find ?P (pairing_sessions db) = Some row"
        and p: "p = row\<lparr>p_user_id := or_undefined (p_user_id row)\<rparr>"
      by (auto simp: getPairingSession_def split: option.splits)
    from a have run: "completePairingSession db now pc uid = Inr ?db'"
      by (simp add: completePairingSession_def)
    from row have "?P row" by (auto simp: find_Some_iff)
    have "find ?P (map ?f (pairing_sessions db)) = map_option ?f (find ?P (pairing_sessions db))"
      using stable by (rule find_map_stable)
    with row \<open>?P row\<close> have "find ?P (map ?f (pairing_sessions db))
        = Some (row\<lparr>p_user_id := Some uid, p_completed := True\<rparr>)"
      by simp
    then have bound: "getPairingSession ?db' now pc =
          Some (p\<lparr>p_user_id := or_undefined (Some uid), p_completed := True\<rparr>)"
      by (simp add: getPairingSession_def p)
    have other: "\<forall>pc' t. pc' \<noteq> pc \<longrightarrow> getPairingSession ?db' t pc' = getPairingSession db t pc'"
    proof (intro allI impI)
      fix pc' t assume ne: "pc' \<noteq> pc"
      let ?Q = "\<lambda>r. p_pairing_code r = pc' \<and> t < p_expires_at r"
      have "find ?Q (map ?f (pairing_sessions db)) = find ?Q (pairing_sessions db)"
        by (rule find_map_other) (use ne in auto)
      then show "getPairingSession ?db' t pc' = getPairingSession db t pc'"
        by (simp add: getPairingSession_def)
    qed
    have frame: "users ?db' = users db \<and> sessions ?db' = sessions db \<and>
        user_tokens ?db' = user_tokens db"
      by simp
    from run bound other frame
    show "\<exists>db'. completePairingSession db now pc uid = Inr db' \<and>
           getPairingSession db' now pc =
             Some (p\<lparr>p_user_id := or_undefined (Some uid), p_completed := True\<rparr>) \<and>
           (\<forall>pc' t. pc' \<noteq> pc \<longrightarrow> getPairingSession db' t pc' = getPairingSession db t pc') \<and>
           users db' = users db \<and> sessions db' = sessions db \<and>
           user_tokens db' = user_tokens db"
      by blast
  qed
  from noop fk live show ?thesis by blast
qed

text \<open>
  The theorem at a concrete store: at time 1000 the session ABCDEFGH (expiring at
  600000) is live and gets bound to user 1; for the unknown user 7 the call throws; at
  time 600000 the call is a no-op.
\<close>

theorem completePairingSession_effect_witness:
  "getPairingSession sample_db 1000 ''ABCDEFGH'' = Some sample_pairing \<and>
   completePairingSession sample_db 1000 ''ABCDEFGH'' 1 =
     Inr (sample_db\<lparr>pairing_sessions :=
            [sample_pairing\<lparr>p_user_id := Some 1, p_completed := True\<rparr>]\<rparr>) \<and>
   completePairingSession sample_db 1000 ''ABCDEFGH'' 7 =
     Inl (PlainError ''FOREIGN KEY constraint failed'') \<and>
   getPairingSession sample_db 600000 ''ABCDEFGH'' = None \<and>
   completePairingSession sample_db 600000 ''ABCDEFGH'' 1 = Inr sample_db"
proof -
  note at_1000 = completePairingSession_effect [of sample_db 1000 "''ABCDEFGH''" 7]
  note at_end = completePairingSession_effect [of sample_db 600000 "''ABCDEFGH''" 1]
  have live: "getPairingSession sample_db 1000 ''ABCDEFGH'' = Some sample_pairing"
    by (simp add: getPairingSession_def sample_db_def sample_pairing_def)
  have gone: "getPairingSession sample_db 600000 ''ABCDEFGH'' = None"
    by (simp add: getPairingSession_def sample_db_def sample_pairing_def)
  have nobody: "getUserById sample_db 7 = None"
    by (simp add: getUserById_def sample_db_def sample_user_def sample_user2_def)
  have bound: "completePairingSession sample_db 1000 ''ABCDEFGH'' 1 =
     Inr (sample_db\<lparr>pairing_sessions :=
            [sample_pairing\<lparr>p_user_id := Some 1, p_completed := True\<rparr>]\<rparr>)"
    by (simp add: completePairingSession_def getUserById_def sample_db_def sample_pairing_def
        sample_user_def)
  from at_1000 live nobody
  have thrown: "completePairingSession sample_db 1000 ''ABCDEFGH'' 7 =
     Inl (PlainError ''FOREIGN KEY constraint failed'')"
    by blast
  from at_end gone
  have noop: "completePairingSession sample_db 600000 ''ABCDEFGH'' 1 = Inr sample_db"
    by blast
  from live bound thrown gone noop show ?thesis by blast
qed

text \<open>
  The claim as stated fails: a second call for the same code before the expiry is not a
  no-op. Users 1 and 2 both have a row in \<open>users\<close>. After user 1 completed ABCDEFGH at
  time 1000, a call at time 2000 for user 2 returns and rebinds the row to user 2.
\<close>

theorem completePairingSession_twice_counterexample:
  "getUserById sample_db 1 = Some sample_user \<and>
   getUserById sample_db 2 = Some sample_user2 \<and>
   completePairingSession sample_db 1000 ''ABCDEFGH'' 1 =
     Inr (sample_db\<lparr>pairing_sessions :=
            [sample_pairing\<lparr>p_user_id := Some 1, p_completed := True\<rparr>]\<rparr>) \<and>
   completePairingSession
       (sample_db\<lparr>pairing_sessions :=
          [sample_pairing\<lparr>p_user_id := Some 1, p_completed := True\<rparr>]\<rparr>)
       2000 ''ABCDEFGH'' 2 =
     Inr (sample_db\<lparr>pairing_sessions :=
            [sample_pairing\<lparr>p_user_id := Some 2, p_completed := True\<rparr>]\<rparr>)"
  by (simp add: completePairingSession_def getUserById_def sample_db_def sample_pairing_def
      sample_user_def sample_user2_def)

section \<open>Expiry clean-up\<close>

text \<open>
  Claim C7. \<open>cleanupExpiredSessions\<close> and \<open>cleanupExpiredPairingSessions\<close> remove
  exactly the rows whose \<open>expires_at\<close> is at or before the current time and keep every
  other row; run again at the same instant they change nothing; and no read at that
  instant or later sees a difference, since reads already skip such rows. The other
  tables are not touched.
\<close>

theorem cleanup_expired_exact:
  "set (sessions (cleanupExpiredSessions db now)) =
     set (sessions db) - {r. s_expires_at r \<le> now} \<and>
   set (pairing_sessions (cleanupExpiredPairingSessions db now)) =
     set (pairing_sessions db) - {r. p_expires_at r \<le> now} \<and>
   cleanupExpiredSessions (cleanupExpiredSessions db now) now = cleanupExpiredSessions db now \<and>
   cleanupExpiredPairingSessions (cleanupExpiredPairingSessions db now) now =
     cleanupExpiredPairingSessions db now \<and>
   (\<forall>t sid. now \<le> t \<longrightarrow>
      getSession (cleanupExpiredSessions db now) t sid = getSession db t sid) \<and>
   (\<forall>t pc. now \<le> t \<longrightarrow>
      getPairingSession (cleanupExpiredPairingSessions db now) t pc = getPairingSession db t pc) \<and>
   cleanupExpiredSessions db now = db\<lparr>sessions := sessions (cleanupExpiredSessions db now)\<rparr> \<and>
   cleanupExpiredPairingSessions db now =
     db\<lparr>pairing_sessions := pairing_sessions (cleanupExpiredPairingSessions db now)\<rparr>"
proof -
  have a: "set (sessions (cleanupExpiredSessions db now)) =
     set (sessions db) - {r. s_expires_at r \<le> now}"
    by (auto simp: cleanupExpiredSessions_def)
  have b: "set (pairing_sessions (cleanupExpiredPairingSessions db now)) =
     set (pairing_sessions db) - {r. p_expires_at r \<le> now}"
    by (auto simp: cleanupExpiredPairingSessions_def)
  have c: "cleanupExpiredSessions (cleanupExpiredSessions db now) now = cleanupExpiredSessions db now"
    by (simp add: cleanupExpiredSessions_def)
  have d: "cleanupExpiredPairingSessions (cleanupExpiredPairingSessions db now) now =
     cleanupExpiredPairingSessions db now"
    by (simp add: cleanupExpiredPairingSessions_def)
  have e: "\<forall>t sid. now \<le> t \<longrightarrow>
      getSession (cleanupExpiredSessions db now) t sid = getSession db t sid"
  proof (intro allI impI)
    fix t sid assume "now \<le> t"
    then have "find (\<lambda>r. s_id r = sid \<and> t < s_expires_at r)
                 (filter (\<lambda>r. \<not> s_expires_at r \<le> now) (sessions db)) =
               find (\<lambda>r. s_id r = sid \<and> t < s_expires_at r) (sessions db)"
      by (intro find_filter_same) auto
    then show "getSession (cleanupExpiredSessions db now) t sid = getSession db t sid"
      by (simp add: getSession_def cleanupExpiredSessions_def)
  qed
  have f: "\<forall>t pc. now \<le> t \<longrightarrow>
      getPairingSession (cleanupExpiredPairingSessions db now) t pc = getPairingSession db t pc"
  proof (intro allI impI)
    fix t pc assume "now \<le> t"
    then have "find (\<lambda>r. p_pairing_code r = pc \<and> t < p_expires_at r)
                 (filter (\<lambda>r. \<not> p_expires_at r \<le> now) (pairing_sessions db)) =
               find (\<lambda>r. p_pairing_code r = pc \<and> t < p_expires_at r) (pairing_sessions db)"
      by (intro find_filter_same) auto
    then show "getPairingSession (cleanupExpiredPairingSessions db now) t pc = getPairingSession db t pc"
      by (simp add: getPairingSession_def cleanupExpiredPairingSessions_def)
  qed
  have g: "cleanupExpiredSessions db now = db\<lparr>sessions := sessions (cleanupExpiredSessions db now)\<rparr>"
    by (simp add: cleanupExpiredSessions_def)
  have h: "cleanupExpiredPairingSessions db now =
     db\<lparr>pairing_sessions := pairing_sessions (cleanupExpiredPairingSessions db now)\<rparr>"
    by (simp add: cleanupExpiredPairingSessions_def)
  from a b c d e f g h show ?thesis by blast
qed

text \<open>
  The theorem on the sample store, whose session expires at 5000 and whose pairing
  session expires at 600000: a clean-up at 5000 removes the session and keeps the
  pairing session; a clean-up at 4000 removes nothing, and the session still reads at
  4500.
\<close>

theorem cleanup_expired_exact_witness:
  "sessions (cleanupExpiredSessions sample_db 5000) = [] \<and>
   pairing_sessions (cleanupExpiredPairingSessions sample_db 5000) = [sample_pairing] \<and>
   cleanupExpiredSessions sample_db 4000 = sample_db \<and>
   getSession sample_db 4500 ''sid-1'' = Some sample_session \<and>
   getSession (cleanupExpiredSessions sample_db 4000) 4500 ''sid-1'' = Some sample_session"
proof -
  have t: "(4000::int) \<le> 4500" by simp
  have r: "getSession sample_db 4500 ''sid-1'' = Some sample_session"
    by (simp add: getSession_def sample_db_def sample_session_def)
  have k: "cleanupExpiredSessions sample_db 4000 = sample_db"
    by (simp add: cleanupExpiredSessions_def sample_db_def sample_session_def)
  show ?thesis
    using t r k cleanup_expired_exact [of sample_db 4000] cleanup_expired_exact [of sample_db 5000]
    by (simp add: cleanupExpiredSessions_def cleanupExpiredPairingSessions_def
        sample_db_def sample_session_def sample_pairing_def)
qed

section \<open>Pairing status\<close>

lemma or_undefined_Some: "or_undefined x = Some u \<longleftrightarrow> x = Some u \<and> u \<noteq> 0"
  by (cases x) auto

lemma or_undefined_None: "or_undefined x = None \<longleftrightarrow> x = None \<or> x = Some 0"
  by (cases x) auto

lemma find_Some_mem: "find P xs = Some x \<Longrightarrow> x \<in> set xs \<and> P x"
  by (induction xs) (auto split: if_splits)

lemma getPairingSession_None:
  "getPairingSession db t pc = None \<longleftrightarrow>
     find (\<lambda>r. p_pairing_code r = pc \<and> t < p_expires_at r) (pairing_sessions db) = None"
  by (simp add: getPairingSession_def split: option.splits)

lemma getPairingSession_Some:
  "getPairingSession db t pc = Some s \<longleftrightarrow>
     (\<exists>row. find (\<lambda>r. p_pairing_code r = pc \<and> t < p_expires_at r) (pairing_sessions db)
             = Some row \<and> s = row\<lparr>p_user_id := or_undefined (p_user_id row)\<rparr>)"
  by (auto simp: getPairingSession_def split: option.splits)

lemma code_expired_iff:
  "code_expired pc t0 db \<longleftrightarrow> getPairingSession db t0 pc = None"
  by (auto simp: code_expired_def getPairingSession_None find_None_iff list_all_iff)

lemma code_expired_op:
  "code_expired pc t0 db \<Longrightarrow> \<not> creates_code pc x \<Longrightarrow> code_expired pc t0 (apply_pairing_op db x)"
  by (cases x)
     (auto simp: code_expired_def list_all_iff createPairingSession_def Let_def
                 completePairingSession_def deletePairingSession_def
                 cleanupExpiredPairingSessions_def split: if_splits)

lemma code_expired_ops:
  "code_expired pc t0 db \<Longrightarrow> \<not> list_ex (creates_code pc) ops
     \<Longrightarrow> code_expired pc t0 (apply_pairing_ops db ops)"
  by (induction ops arbitrary: db) (auto simp: code_expired_op)

lemma code_expired_later:
  "code_expired pc t0 db \<Longrightarrow> t0 \<le> t \<Longrightarrow> getPairingSession db t pc = None"
  by (fastforce simp: code_expired_def getPairingSession_None find_None_iff list_all_iff)

lemma verified_iff:
  "verified (checkPairingStatus db now pc) \<longleftrightarrow>
     (\<exists>s uid usr. getPairingSession db now pc = Some s \<and> p_completed s \<and>
        p_user_id s = Some uid \<and> getUserById db uid = Some usr)"
proof (cases "getPairingSession db now pc")
  case None
  then show ?thesis by (simp add: checkPairingStatus_def)
next
  case (Some s)
  show ?thesis
  proof (cases "p_user_id s")
    case None
    with Some show ?thesis by (simp add: checkPairingStatus_def)
  next
    case uid: (Some uid)
    from Some uid have "uid \<noteq> 0"
      by (auto simp: getPairingSession_Some or_undefined_Some)
    with Some uid show ?thesis
      by (cases "getUserById db uid") (simp_all add: checkPairingStatus_def)
  qed
qed

lemma verified_user:
  "getPairingSession db now pc = Some s \<Longrightarrow> p_completed s \<Longrightarrow> p_user_id s = Some uid
     \<Longrightarrow> getUserById db uid = Some usr
     \<Longrightarrow> checkPairingStatus db now pc =
          \<lparr> verified = True,
            status_user = Some \<lparr> su_id = u_id usr, su_display_name = u_display_name usr,
                                  su_x_username = u_x_username usr \<rparr> \<rparr>"
  by (auto simp: checkPairingStatus_def getPairingSession_Some or_undefined_Some
           split: option.splits if_splits)

lemma not_verified:
  "\<not> verified (checkPairingStatus db now pc) \<Longrightarrow>
     checkPairingStatus db now pc = \<lparr> verified = False, status_user = None \<rparr>"
  by (auto simp: checkPairingStatus_def split: option.splits if_splits)

lemma verified_stored:
  assumes "getUserById db 0 = None"
  shows "verified (checkPairingStatus db now pc) \<longleftrightarrow>
     (\<exists>row uid usr.
        find (\<lambda>r. p_pairing_code r = pc \<and> now < p_expires_at r) (pairing_sessions db) = Some row \<and>
        p_completed row \<and> p_user_id row = Some uid \<and> getUserById db uid = Some usr)"
    (is "?L \<longleftrightarrow> ?R")
proof
  assume ?L
  then obtain s uid usr where s: "getPairingSession db now pc = Some s" "p_completed s"
      "p_user_id s = Some uid" "getUserById db uid = Some usr"
    unfolding verified_iff by blast
  from s(1) obtain row where row:
      "find (\<lambda>r. p_pairing_code r = pc \<and> now < p_expires_at r) (pairing_sessions db) = Some row"
      "s = row\<lparr>p_user_id := or_undefined (p_user_id row)\<rparr>"
    unfolding getPairingSession_Some by blast
  from row(2) s(2,3) have "p_completed row" "p_user_id row = Some uid"
    by (simp_all add: or_undefined_Some)
  with row(1) s(4) show ?R by blast
next
  assume ?R
  then obtain row uid usr where row:
      "find (\<lambda>r. p_pairing_code r = pc \<and> now < p_expires_at r) (pairing_sessions db) = Some row"
      "p_completed row" "p_user_id row = Some uid" "getUserById db uid = Some usr"
    by blast
  from row(4) assms have "uid \<noteq> 0" by auto
  let ?s = "row\<lparr>p_user_id := or_undefined (p_user_id row)\<rparr>"
  from row(1) have "getPairingSession db now pc = Some ?s"
    unfolding getPairingSession_Some by blast
  moreover have "p_completed ?s" "p_user_id ?s = Some uid"
    using row(2,3) \<open>uid \<noteq> 0\<close> by simp_all
  ultimately show ?L
    unfolding verified_iff using row(4) by blast
qed

text \<open>
  Claim C9, as the code has it. \<open>checkPairingStatus\<close> answers \<open>verified = true\<close> exactly
  when \<open>getPairingSession\<close> returns a session for the code at the time of the read
  (the row exists and \<open>expires_at\<close> is still ahead), the session is completed, and its
  user id resolves with \<open>getUserById\<close>; the answer then carries that user's id, display
  name and user name, and every other answer is \<open>verified = false\<close> with no user. In
  terms of the stored row the condition is the same in every store where no user has
  id 0 (ids are assigned from 1). Once the code no longer resolves at a time \<open>now\<close>,
  the answer is \<open>verified = false\<close> at every later time, whatever completions,
  deletions, clean-ups and creations of sessions under other codes happen in between,
  as long as no session is created under the same code again.
\<close>

theorem checkPairingStatus_verified_iff:
  "(verified (checkPairingStatus db now pc) \<longleftrightarrow>
      (\<exists>s uid usr. getPairingSession db now pc = Some s \<and> p_completed s \<and>
         p_user_id s = Some uid \<and> getUserById db uid = Some usr)) \<and>
   (\<forall>s uid usr. getPairingSession db now pc = Some s \<and> p_completed s \<and>
         p_user_id s = Some uid \<and> getUserById db uid = Some usr \<longrightarrow>
      checkPairingStatus db now pc =
        \<lparr> verified = True,
          status_user = Some \<lparr> su_id = u_id usr, su_display_name = u_display_name usr,
                                su_x_username = u_x_username usr \<rparr> \<rparr>) \<and>
   (\<not> verified (checkPairingStatus db now pc) \<longrightarrow>
      checkPairingStatus db now pc = \<lparr> verified = False, status_user = None \<rparr>) \<and>
   (getUserById db 0 = None \<longrightarrow>
      (verified (checkPairingStatus db now pc) \<longleftrightarrow>
         (\<exists>row uid usr.
            find (\<lambda>r. p_pairing_code r = pc \<and> now < p_expires_at r) (pairing_sessions db)
              = Some row \<and>
            p_completed row \<and> p_user_id row = Some uid \<and> getUserById db uid = Some usr))) \<and>
   (getPairingSession db now pc = None \<longrightarrow>
      (\<forall>ops t. now \<le> t \<and> \<not> list_ex (creates_code pc) ops \<longrightarrow>
         \<not> verified (checkPairingStatus (apply_pairing_ops db ops) t pc)))"
proof -
  have perm: "getPairingSession db now pc = None \<longrightarrow>
      (\<forall>ops t. now \<le> t \<and> \<not> list_ex (creates_code pc) ops \<longrightarrow>
         \<not> verified (checkPairingStatus (apply_pairing_ops db ops) t pc))"
  proof (intro impI allI)
    fix ops t
    assume gone: "getPairingSession db now pc = None"
      and later: "now \<le> t \<and> \<not> list_ex (creates_code pc) ops"
    from gone have "code_expired pc now db"
      by (simp add: code_expired_iff)
    with later have "code_expired pc now (apply_pairing_ops db ops)"
      by (simp add: code_expired_ops)
    with later have "getPairingSession (apply_pairing_ops db ops) t pc = None"
      by (simp add: code_expired_later)
    then show "\<not> verified (checkPairingStatus (apply_pairing_ops db ops) t pc)"
      by (simp add: checkPairingStatus_def)
  qed
  show ?thesis
    using verified_iff [of db now pc] verified_stored [of db now pc] perm
    by (auto simp: verified_user not_verified)
qed

text \<open>
  The theorem on the sample store: ABCDEFGH is unverified before completion, verified
  with user 1 after it, and unverified once its expiry (600000) has passed, also when a
  completion is attempted then.
\<close>

theorem checkPairingStatus_verified_iff_witness:
  "checkPairingStatus sample_db 1000 ''ABCDEFGH'' = \<lparr> verified = False, status_user = None \<rparr> \<and>
   checkPairingStatus (apply_pairing_ops sample_db [CompletePairing 1000 ''ABCDEFGH'' 1])
       2000 ''ABCDEFGH'' =
     \<lparr> verified = True,
       status_user = Some \<lparr> su_id = 1, su_display_name = ''Alice'',
                             su_x_username = ''alice'' \<rparr> \<rparr> \<and>
   getPairingSession sample_db 600000 ''ABCDEFGH'' = None \<and>
   \<not> verified (checkPairingStatus
       (apply_pairing_ops sample_db [CompletePairing 600000 ''ABCDEFGH'' 1, CleanupPairing 600000])
       600001 ''ABCDEFGH'')"
proof -
  let ?db = "apply_pairing_ops sample_db [CompletePairing 1000 ''ABCDEFGH'' 1]"
  let ?ops = "[CompletePairing 600000 ''ABCDEFGH'' 1, CleanupPairing 600000]"
  note at_1000 = checkPairingStatus_verified_iff [of sample_db 1000 "''ABCDEFGH''"]
  note at_2000 = checkPairingStatus_verified_iff [of ?db 2000 "''ABCDEFGH''"]
  note at_end = checkPairingStatus_verified_iff [of sample_db 600000 "''ABCDEFGH''"]
  have before: "\<not> verified (checkPairingStatus sample_db 1000 ''ABCDEFGH'')"
    by (simp add: checkPairingStatus_def getPairingSession_def sample_db_def sample_pairing_def)
  with at_1000 have a1: "checkPairingStatus sample_db 1000 ''ABCDEFGH'' =
      \<lparr> verified = False, status_user = None \<rparr>"
    by blast
  have db: "?db = sample_db\<lparr>pairing_sessions :=
      [sample_pairing\<lparr>p_user_id := Some 1, p_completed := True\<rparr>]\<rparr>"
    by (simp add: completePairingSession_def getUserById_def sample_db_def sample_pairing_def
        sample_user_def)
  have s: "getPairingSession ?db 2000 ''ABCDEFGH'' =
      Some (sample_pairing\<lparr>p_user_id := Some 1, p_completed := True\<rparr>)"
    unfolding db by (simp add: getPairingSession_def sample_pairing_def)
  have u: "getUserById ?db 1 = Some sample_user"
    unfolding db by (simp add: getUserById_def sample_db_def sample_user_def)
  have sc: "p_completed (sample_pairing\<lparr>p_user_id := Some 1, p_completed := True\<rparr>)"
    and su: "p_user_id (sample_pairing\<lparr>p_user_id := Some 1, p_completed := True\<rparr>) = Some 1"
    by simp_all
  from at_2000 s sc su u have "checkPairingStatus ?db 2000 ''ABCDEFGH'' =
      \<lparr> verified = True,
        status_user = Some \<lparr> su_id = u_id sample_user,
                              su_display_name = u_display_name sample_user,
                              su_x_username = u_x_username sample_user \<rparr> \<rparr>"
    by blast
  then have a2: "checkPairingStatus ?db 2000 ''ABCDEFGH'' =
     \<lparr> verified = True,
       status_user = Some \<lparr> su_id = 1, su_display_name = ''Alice'',
                             su_x_username = ''alice'' \<rparr> \<rparr>"
    by (simp add: sample_user_def)
  have gone: "getPairingSession sample_db 600000 ''ABCDEFGH'' = None"
    by (simp add: getPairingSession_def sample_db_def sample_pairing_def)
  have ops: "(600000::int) \<le> 600001 \<and> \<not> list_ex (creates_code ''ABCDEFGH'') ?ops"
    by simp
  from at_end gone ops
  have a4: "\<not> verified (checkPairingStatus (apply_pairing_ops sample_db ?ops) 600001 ''ABCDEFGH'')"
    by blast
  from a1 a2 gone a4 show ?thesis by blast
qed

text \<open>
  The claim as stated fails: the status does not stay \<open>verified = false\<close> for good. The
  session ABCDEFGH of the sample store expires at 600000 without having been completed.
  After a clean-up has removed the row, a new hosted flow that draws the same code
  creates a session under it, and once that one is completed the status of ABCDEFGH is
  \<open>verified = true\<close>.
\<close>

theorem checkPairingStatus_reissued_code_counterexample:
  "\<not> p_completed sample_pairing \<and>
   getPairingSession sample_db 600000 ''ABCDEFGH'' = None \<and>
   \<not> verified (checkPairingStatus sample_db 600000 ''ABCDEFGH'') \<and>
   verified (checkPairingStatus
     (apply_pairing_ops sample_db
        [CleanupPairing 600000,
         CreatePairing 600001 ''ABCDEFGH'' ''verifier2'' ''state2'' None,
         CompletePairing 600002 ''ABCDEFGH'' 1])
     600003 ''ABCDEFGH'')"
  by (simp add: checkPairingStatus_def getPairingSession_def getUserById_def
      completePairingSession_def createPairingSession_def cleanupExpiredPairingSessions_def
      sample_db_def sample_pairing_def sample_user_def Let_def)

section \<open>Encryption round trip\<close>

lemma char_of_byte: "char_of (unat (of_nat (of_char ch) :: byte)) = ch"
  by (simp add: unat_of_nat)

lemma sample_crypto_sound: "sound_cipher sample_crypto"
  by (simp add: sound_cipher_def sample_crypto_def comp_def char_of_byte)

text \<open>
  What \<open>decrypt\<close> does with an input whose first piece is not empty: it deciphers the
  second piece, and nothing else of the input matters.
\<close>

lemma decrypt_two_parts:
  assumes "CHR '':'' \<notin> set a" "a \<noteq> []"
  shows "decrypt c (a @ CHR '':'' # rest) =
     (case split_on CHR '':'' rest of
        [] \<Rightarrow> Inl (PlainError ''Decryption failed'')
      | e # _ \<Rightarrow> if e = [] \<or> odd (length e) then Inl (PlainError ''Decryption failed'')
                 else (case decipher_final c (from_hex e) of
                      None \<Rightarrow> Inl (PlainError ''Decryption failed'')
                    | Some decrypted \<Rightarrow> Inr decrypted))"
  using assms
  by (simp add: decrypt_def split_on_append Let_def split: list.splits)

lemma decrypt_odd_length:
  assumes "CHR '':'' \<notin> set a" "a \<noteq> []" "CHR '':'' \<notin> set e" "odd (length e)"
  shows "decrypt c (a @ CHR '':'' # e) = Inl (PlainError ''Decryption failed'')"
  using assms by (simp add: decrypt_two_parts split_on_no_sep)

lemma encrypt_decrypt_sound:
  assumes "sound_cipher c" "iv \<noteq> []"
  shows "\<exists>e. encrypt c iv x = Inr e \<and> decrypt c e = Inr x"
proof -
  from assms(1) obtain ct where ct: "cipher_final c x = Some ct" "ct \<noteq> []"
      "decipher_final c ct = Some x"
    unfolding sound_cipher_def by blast
  have "decrypt c (to_hex iv @ CHR '':'' # to_hex ct) = Inr x"
    using ct assms(2)
    by (simp add: decrypt_two_parts to_hex_no_colon split_on_no_sep to_hex_empty from_hex_to_hex
        even_length_to_hex)
  then show ?thesis
    using ct by (simp add: encrypt_def)
qed

lemma encrypt_same_iff:
  assumes "sound_cipher c"
  shows "encrypt c iv x = encrypt c iv' x \<longleftrightarrow> iv = iv'"
proof -
  from assms obtain ct where "cipher_final c x = Some ct"
    unfolding sound_cipher_def by blast
  then show ?thesis
    by (auto simp: encrypt_def dest: to_hex_inj)
qed

text \<open>
  Claim C3. For a cipher that inverts itself, \<open>decrypt (encrypt x) = x\<close> for every
  string \<open>x\<close> and every sixteen bytes drawn as IV, and two calls of \<open>encrypt\<close> on the
  same plaintext return different encodings exactly when they drew different IVs.
\<close>

theorem encrypt_decrypt_roundtrip:
  assumes "sound_cipher c" "length iv = 16" "length iv' = 16"
  shows "(\<exists>e. encrypt c iv x = Inr e \<and> decrypt c e = Inr x) \<and>
         (encrypt c iv x = encrypt c iv' x \<longleftrightarrow> iv = iv')"
proof -
  from assms(2) have "iv \<noteq> []" by auto
  with assms(1) have 1: "\<exists>e. encrypt c iv x = Inr e \<and> decrypt c e = Inr x"
    by (rule encrypt_decrypt_sound)
  from assms(1) have 2: "encrypt c iv x = encrypt c iv' x \<longleftrightarrow> iv = iv'"
    by (rule encrypt_same_iff)
  from 1 2 show ?thesis by blast
qed

text \<open>The theorem for the sample cipher, the plaintext \<open>hi\<close> and two different IVs.\<close>

theorem encrypt_decrypt_roundtrip_witness:
  "length sample_iv = 16 \<and> length sample_iv2 = 16 \<and>
   encrypt sample_crypto sample_iv ''hi'' = Inr ''000102030405060708090a0b0c0d0e0f:016869'' \<and>
   decrypt sample_crypto ''000102030405060708090a0b0c0d0e0f:016869'' = Inr ''hi'' \<and>
   encrypt sample_crypto sample_iv ''hi'' \<noteq> encrypt sample_crypto sample_iv2 ''hi''"
proof -
  have l: "length sample_iv = 16" "length sample_iv2 = 16"
    by (simp_all add: sample_iv_def sample_iv2_def)
  have e: "encrypt sample_crypto sample_iv ''hi'' = Inr ''000102030405060708090a0b0c0d0e0f:016869''"
    by code_simp
  have ne: "sample_iv \<noteq> sample_iv2"
    by (simp add: sample_iv_def sample_iv2_def)
  from encrypt_decrypt_roundtrip [OF sample_crypto_sound l, of "''hi''"] e ne
  show ?thesis using l by auto
qed

section \<open>The IV segment of a ciphertext\<close>

text \<open>
  Claim C10, as the code has it. \<open>decrypt\<close> never reads the IV segment beyond testing
  that it is not empty: for every two non-empty strings \<open>iv\<close> and \<open>iv'\<close> without a colon
  and every remainder, \<open>iv:rest\<close> and \<open>iv':rest\<close> decrypt alike (to the same plaintext,
  or both fail).
\<close>

theorem decrypt_ignores_iv:
  assumes "iv \<noteq> []" "iv' \<noteq> []" "CHR '':'' \<notin> set iv" "CHR '':'' \<notin> set iv'"
  shows "decrypt c (iv @ '':'' @ rest) = decrypt c (iv' @ '':'' @ rest)"
  using assms by (simp add: decrypt_two_parts)

theorem decrypt_ignores_iv_witness:
  "decrypt sample_crypto (''00'' @ '':'' @ ''016869'') = Inr ''hi'' \<and>
   decrypt sample_crypto (''ffee'' @ '':'' @ ''016869'') = Inr ''hi''"
proof -
  have a: "decrypt sample_crypto (''00'' @ '':'' @ ''016869'') = Inr ''hi''"
    by code_simp
  have h: "''00'' \<noteq> []" "''ffee'' \<noteq> []" "CHR '':'' \<notin> set ''00''" "CHR '':'' \<notin> set ''ffee''"
    by simp_all
  from decrypt_ignores_iv [OF h, of sample_crypto "''016869''"] a
  show ?thesis by simp
qed

text \<open>
  The claim as stated fails for a replacement that contains a colon: \<open>split(':')\<close> then
  cuts the replacement itself, and \<open>decrypt\<close> deciphers its second piece. With the
  IV segment \<open>00\<close> of \<open>00:016869\<close> replaced by the non-empty string \<open>00:0179\<close>, the
  result is \<open>y\<close> and no longer \<open>hi\<close>.
\<close>

theorem decrypt_iv_with_colon_counterexample:
  "decrypt sample_crypto (''00'' @ '':'' @ ''016869'') = Inr ''hi'' \<and>
   decrypt sample_crypto (''00:0179'' @ '':'' @ ''016869'') = Inr ''y''"
  by code_simp

section \<open>Session secrets\<close>

lemma hashSessionSecret_no_colon: "CHR '':'' \<notin> set (hashSessionSecret c rnd secret)"
  by (simp add: hashSessionSecret_def hashPassword_def to_hex_no_colon)

lemma verifySessionSecret_stored:
  "verifySessionSecret c rnd supplied (hashSessionSecret c salt secret) \<longleftrightarrow>
     pbkdf2 c supplied rnd = pbkdf2 c secret salt"
proof -
  have "split_on CHR '':'' (hashSessionSecret c salt secret) = [hashSessionSecret c salt secret]"
    by (rule split_on_no_sep) (rule hashSessionSecret_no_colon)
  then show ?thesis
    by (auto simp: verifySessionSecret_def hashSessionSecret_def hashPassword_def
             dest: to_hex_inj)
qed

text \<open>
  Claim C2, evaluated on the code. \<open>createSession\<close> stores the hexadecimal PBKDF2
  digest of the secret under a salt it then drops; the stored text has no colon, so
  \<open>verifySessionSecret\<close> takes its branch for a hash without salt and compares the
  stored digest with a digest of the supplied secret under newly drawn salt bytes
  \<open>rnd\<close>. Hence a supplied secret is accepted exactly when its digest under the new
  salt equals the stored digest, and the correct secret is rejected whenever the two
  salts give it different digests.
\<close>

theorem validateSession_created:
  assumes created: "createSession c db now uid expiresAt sid secret salt = Inr (db', sid', secret')"
    and live: "now' < num_or_else expiresAt (now + 30 * 24 * 60 * 60 * 1000)"
    and supplied: "supplied \<noteq> []"
    and secret: "secret \<noteq> []"
  shows "sid' = sid \<and> secret' = secret \<and>
    (validateSession c db' now' rnd sid (Some supplied) \<noteq> None \<longleftrightarrow>
       pbkdf2 c supplied rnd = pbkdf2 c secret salt) \<and>
    (pbkdf2 c secret rnd \<noteq> pbkdf2 c secret salt \<longrightarrow>
       validateSession c db' now' rnd sid (Some secret) = None)"
proof -
  let ?row = "\<lparr> s_id = sid, s_user_id = uid, s_created_at = now,
      s_expires_at = num_or_else expiresAt (now + 30 * 24 * 60 * 60 * 1000),
      s_session_secret_hash = hashSessionSecret c salt secret \<rparr>"
  from created have fresh: "find (\<lambda>r. s_id r = sid) (sessions db) = None"
    and db': "db' = db\<lparr>sessions := sessions db @ [?row]\<rparr>"
    and ids: "sid' = sid" "secret' = secret"
    by (auto simp: createSession_def db_createSession_def Let_def split: if_splits sum.splits)
  from fresh have "find (\<lambda>r. s_id r = sid \<and> now' < s_expires_at r) (sessions db) = None"
    by (rule find_None_weaken)
  with live have got: "getSession db' now' sid = Some ?row"
    by (simp add: getSession_def db' find_snoc)
  have v: "\<And>s. s \<noteq> [] \<Longrightarrow> validateSession c db' now' rnd sid (Some s) \<noteq> None \<longleftrightarrow>
       pbkdf2 c s rnd = pbkdf2 c secret salt"
    using got by (simp add: validateSession_def verifySessionSecret_stored)
  show ?thesis
    using ids v [OF supplied] v [OF secret] by auto
qed

text \<open>
  On the sample store: the session is created with salt \<open>sample_iv\<close>; validation with
  the correct secret and the salt \<open>sample_iv2\<close> drawn returns nothing, as it does for
  another secret.
\<close>

theorem validateSession_created_witness:
  "createSession sample_crypto sample_db 0 1 None ''sid-2'' ''s3cret'' sample_iv =
     Inr (sample_db2, ''sid-2'', ''s3cret'') \<and>
   validateSession sample_crypto sample_db2 1000 sample_iv2 ''sid-2'' (Some ''s3cret'') = None \<and>
   validateSession sample_crypto sample_db2 1000 sample_iv2 ''sid-2'' (Some ''other'') = None"
proof -
  have created: "createSession sample_crypto sample_db 0 1 None ''sid-2'' ''s3cret'' sample_iv =
     Inr (sample_db2, ''sid-2'', ''s3cret'')"
    by (simp add: createSession_def db_createSession_def sample_db2_def sample_db_def
        sample_session_def Let_def)
  have live: "(1000::int) < num_or_else None (0 + 30 * 24 * 60 * 60 * 1000)"
    by simp
  have ne: "''s3cret'' \<noteq> []" "''other'' \<noteq> []"
    by simp_all
  have salt: "pbkdf2 sample_crypto ''s3cret'' sample_iv2 \<noteq> pbkdf2 sample_crypto ''s3cret'' sample_iv"
    by (simp add: sample_crypto_def sample_iv_def sample_iv2_def)
  have other: "pbkdf2 sample_crypto ''other'' sample_iv2 \<noteq> pbkdf2 sample_crypto ''s3cret'' sample_iv"
    by (simp add: sample_crypto_def sample_iv_def sample_iv2_def)
  from validateSession_created [OF created live ne(1) ne(1), of sample_iv2] salt
  have a: "validateSession sample_crypto sample_db2 1000 sample_iv2 ''sid-2'' (Some ''s3cret'') = None"
    by blast
  from validateSession_created [OF created live ne(2) ne(1), of sample_iv2] other
  have b: "validateSession sample_crypto sample_db2 1000 sample_iv2 ''sid-2'' (Some ''other'') = None"
    by blast
  from created a b show ?thesis by blast
qed

section \<open>Token rows and the refresh request\<close>


lemma getUserTokens_save:
  "getUserTokens (saveUserTokens db now uid f) uid =
     Some \<lparr> t_user_id = uid, t_provider = ''x'', t_x_user_id = f_x_user_id f,
            t_granted_scopes = f_granted_scopes f, t_access_token = f_access_token f,
            t_refresh_token = f_refresh_token f, t_expires_at = f_expires_at f,
            t_created_at = (case getUserTokens db uid of None \<Rightarrow> now | Some old \<Rightarrow> t_created_at old),
            t_updated_at = now \<rparr>"
  by (simp add: getUserTokens_def saveUserTokens_def Let_def find_snoc find_filter_not)






lemma refreshTokens_Inr:
  assumes "refreshTokens c cfg fetch env db usr cur = (Inr newTokens, db')"
  shows "\<exists>resp encAccess encRefresh.
     fetch \<lparr> rq_refresh_token = td_refresh_token cur, rq_client_id = clientId cfg,
             rq_client_secret = clientSecret cfg \<rparr> = Ok resp \<and>
     encrypt c (iv_access env) (tr_access_token resp) = Inr encAccess \<and>
     encrypt c (iv_refresh env)
       (str_or_else (tr_refresh_token resp) (td_refresh_token cur)) = Inr encRefresh \<and>
     td_access_token newTokens = tr_access_token resp \<and>
     db' = saveUserTokens db (now_save env) (u_id usr)
        \<lparr> f_x_user_id = u_x_user_id usr,
          f_granted_scopes = str_or_else (tr_scope resp) (td_scope cur),
          f_access_token = encAccess,
          f_refresh_token = encRefresh,
          f_expires_at = now_refresh env + tr_expires_in resp * 1000 \<rparr>"
  using assms
  by (auto simp: refreshTokens_def Let_def split: fetch_result.splits sum.splits)

section \<open>Valid access tokens\<close>

lemma gva_no_tokens:
  "getUserTokens db (u_id usr) = None \<Longrightarrow>
   getValidAccessToken c cfg fetch now env db usr requiredScopes =
     (Inl (createAuthError auth_reauth_required
             (''No tokens found for user '' @ u_x_username usr @ ''. Please authenticate.'')
             (Some (getLoginUrl cfg)) None),
      db, False)"
  by (simp add: getValidAccessToken_def)

lemma gva_decrypt_fail:
  "getUserTokens db (u_id usr) = Some tokens \<Longrightarrow>
   isl (decrypt c (t_access_token tokens)) \<or> isl (decrypt c (t_refresh_token tokens)) \<Longrightarrow>
   getValidAccessToken c cfg fetch now env db usr requiredScopes =
     (Inl (createAuthError auth_reauth_required
             ''Token decryption failed. Please re-authenticate.''
             (Some (getLoginUrl cfg)) None),
      db, False)"
  by (auto simp: getValidAccessToken_def split: sum.splits)

lemma gva_decrypted:
  "getUserTokens db (u_id usr) = Some tokens \<Longrightarrow>
   decrypt c (t_access_token tokens) = Inr access \<Longrightarrow>
   decrypt c (t_refresh_token tokens) = Inr refresh \<Longrightarrow>
   getValidAccessToken c cfg fetch now env db usr requiredScopes =
     (let missingScopes = missing_for requiredScopes (t_granted_scopes tokens)
      in if missingScopes \<noteq> []
         then (Inl (createAuthError auth_scope_insufficient
                      (''Missing required scopes: '' @ join '', '' missingScopes)
                      (Some (getReAuthUrl cfg missingScopes)) (Some missingScopes)),
               db, False)
         else if t_expires_at tokens - 60000 \<le> now
         then (case refreshTokens c cfg fetch env db usr
                      \<lparr> td_access_token = access, td_refresh_token = refresh,
                        td_expires_at = t_expires_at tokens,
                        td_scope = t_granted_scopes tokens \<rparr> of
                 (Inl e, db') \<Rightarrow> (Inl e, db', True)
               | (Inr newTokens, db') \<Rightarrow> (Inr (td_access_token newTokens), db', True))
         else (Inr access, db, False))"
  by (cases requiredScopes) (simp_all add: getValidAccessToken_def missing_for_def Let_def)

lemma refreshTokens_error_is_reauth:
  "refreshTokens c cfg fetch env db usr cur = (Inl e, db') \<Longrightarrow> is_reauth (Inl e :: error + string)"
  by (auto simp: refreshTokens_def is_reauth_def createAuthError_def network_error_def Let_def
           split: fetch_result.splits sum.splits)


lemma gva_flag:
  assumes "getUserTokens db (u_id usr) = Some tokens"
  shows "snd (snd (getValidAccessToken c cfg fetch now env db usr requiredScopes)) \<longleftrightarrow>
     (\<not> isl (decrypt c (t_access_token tokens)) \<and> \<not> isl (decrypt c (t_refresh_token tokens)) \<and>
      missing_for requiredScopes (t_granted_scopes tokens) = [] \<and>
      t_expires_at tokens - 60000 \<le> now)"
proof (cases "isl (decrypt c (t_access_token tokens)) \<or> isl (decrypt c (t_refresh_token tokens))")
  case True
  with assms show ?thesis by (auto simp: gva_decrypt_fail)
next
  case False
  then obtain a r where d: "decrypt c (t_access_token tokens) = Inr a"
      "decrypt c (t_refresh_token tokens) = Inr r"
    by (cases "decrypt c (t_access_token tokens)"; cases "decrypt c (t_refresh_token tokens)") auto
  show ?thesis
    using False
    by (auto simp: gva_decrypted [OF assms d] Let_def split: prod.splits sum.splits)
qed

lemma gva_returns:
  assumes "getUserTokens db (u_id usr) = Some tokens"
    and "fst (getValidAccessToken c cfg fetch now env db usr requiredScopes) = Inr tok"
  shows "\<not> isl (decrypt c (t_access_token tokens)) \<and> \<not> isl (decrypt c (t_refresh_token tokens)) \<and>
      missing_for requiredScopes (t_granted_scopes tokens) = []"
proof (cases "isl (decrypt c (t_access_token tokens)) \<or> isl (decrypt c (t_refresh_token tokens))")
  case True
  with assms show ?thesis by (auto simp: gva_decrypt_fail)
next
  case False
  then obtain a r where d: "decrypt c (t_access_token tokens) = Inr a"
      "decrypt c (t_refresh_token tokens) = Inr r"
    by (cases "decrypt c (t_access_token tokens)"; cases "decrypt c (t_refresh_token tokens)") auto
  show ?thesis
    using False assms(2)
    by (auto simp: gva_decrypted [OF assms(1) d] Let_def split: if_splits)
qed

lemma gva_in_window:
  assumes "getUserTokens db (u_id usr) = Some tokens"
    and "decrypt c (t_access_token tokens) = Inr access"
    and "decrypt c (t_refresh_token tokens) = Inr refresh"
    and "missing_for requiredScopes (t_granted_scopes tokens) = []"
    and "t_expires_at tokens - 60000 \<le> now"
  shows "fst (getValidAccessToken c cfg fetch now env db usr requiredScopes) =
       map_sum id td_access_token
         (fst (refreshTokens c cfg fetch env db usr
                 \<lparr> td_access_token = access, td_refresh_token = refresh,
                   td_expires_at = t_expires_at tokens,
                   td_scope = t_granted_scopes tokens \<rparr>)) \<and>
     fst (snd (getValidAccessToken c cfg fetch now env db usr requiredScopes)) =
       snd (refreshTokens c cfg fetch env db usr
              \<lparr> td_access_token = access, td_refresh_token = refresh,
                td_expires_at = t_expires_at tokens,
                td_scope = t_granted_scopes tokens \<rparr>)"
  using assms(4,5)
  by (simp add: gva_decrypted [OF assms(1,2,3)] split: prod.splits sum.splits)

lemma gva_no_refresh_store:
  assumes "getUserTokens db (u_id usr) = Some tokens"
    and "\<not> snd (snd (getValidAccessToken c cfg fetch now env db usr requiredScopes))"
  shows "fst (snd (getValidAccessToken c cfg fetch now env db usr requiredScopes)) = db"
proof (cases "isl (decrypt c (t_access_token tokens)) \<or> isl (decrypt c (t_refresh_token tokens))")
  case True
  with assms show ?thesis by (auto simp: gva_decrypt_fail)
next
  case False
  then obtain a r where d: "decrypt c (t_access_token tokens) = Inr a"
      "decrypt c (t_refresh_token tokens) = Inr r"
    by (cases "decrypt c (t_access_token tokens)"; cases "decrypt c (t_refresh_token tokens)") auto
  show ?thesis
    using assms(2)
    by (auto simp: gva_decrypted [OF assms(1) d] Let_def split: if_splits prod.splits sum.splits)
qed

text \<open>
  Claim C5. For a user with a stored token row, \<open>getValidAccessToken\<close> calls
  \<open>refreshTokens\<close> exactly when both stored secrets decrypt, no required scope is
  missing, and the current time is at or past \<open>expires_at - 60000\<close>. So whenever it
  returns a token, it has refreshed first if and only if at most 60 seconds remained.
  Inside that window the outcome and the store are those of \<open>refreshTokens\<close> on the
  decrypted tokens: a token is returned only if the token endpoint answered \<open>ok\<close> to
  the request carrying the stored refresh token, it is the access token of that answer,
  and the user's row then holds it encrypted with the new expiry. With more than 60
  seconds left the stored access token is returned, and whenever no refresh is made the
  store is as it was.
\<close>

theorem getValidAccessToken_refresh_window:
  assumes "getUserTokens db (u_id usr) = Some tokens"
  shows
   "(snd (snd (getValidAccessToken c cfg fetch now env db usr requiredScopes)) \<longleftrightarrow>
       (\<not> isl (decrypt c (t_access_token tokens)) \<and> \<not> isl (decrypt c (t_refresh_token tokens)) \<and>
        missing_for requiredScopes (t_granted_scopes tokens) = [] \<and>
        t_expires_at tokens - 60000 \<le> now)) \<and>
    (\<forall>tok. fst (getValidAccessToken c cfg fetch now env db usr requiredScopes) = Inr tok \<longrightarrow>
       (snd (snd (getValidAccessToken c cfg fetch now env db usr requiredScopes)) \<longleftrightarrow>
          t_expires_at tokens - 60000 \<le> now)) \<and>
    (\<forall>tok. fst (getValidAccessToken c cfg fetch now env db usr requiredScopes) = Inr tok \<and>
        now < t_expires_at tokens - 60000 \<longrightarrow>
       decrypt c (t_access_token tokens) = Inr tok \<and>
       fst (snd (getValidAccessToken c cfg fetch now env db usr requiredScopes)) = db) \<and>
    (\<not> snd (snd (getValidAccessToken c cfg fetch now env db usr requiredScopes)) \<longrightarrow>
       fst (snd (getValidAccessToken c cfg fetch now env db usr requiredScopes)) = db) \<and>
    (\<forall>access refresh.
       decrypt c (t_access_token tokens) = Inr access \<and>
       decrypt c (t_refresh_token tokens) = Inr refresh \<and>
       missing_for requiredScopes (t_granted_scopes tokens) = [] \<and>
       t_expires_at tokens - 60000 \<le> now \<longrightarrow>
       fst (getValidAccessToken c cfg fetch now env db usr requiredScopes) =
         map_sum id td_access_token
           (fst (refreshTokens c cfg fetch env db usr
                   \<lparr> td_access_token = access, td_refresh_token = refresh,
                     td_expires_at = t_expires_at tokens,
                     td_scope = t_granted_scopes tokens \<rparr>)) \<and>
       fst (snd (getValidAccessToken c cfg fetch now env db usr requiredScopes)) =
         snd (refreshTokens c cfg fetch env db usr
                \<lparr> td_access_token = access, td_refresh_token = refresh,
                  td_expires_at = t_expires_at tokens,
                  td_scope = t_granted_scopes tokens \<rparr>)) \<and>
    (\<forall>tok. fst (getValidAccessToken c cfg fetch now env db usr requiredScopes) = Inr tok \<and>
        t_expires_at tokens - 60000 \<le> now \<longrightarrow>
       (\<exists>refresh resp row.
          decrypt c (t_refresh_token tokens) = Inr refresh \<and>
          fetch \<lparr> rq_refresh_token = refresh, rq_client_id = clientId cfg,
                  rq_client_secret = clientSecret cfg \<rparr> = Ok resp \<and>
          tok = tr_access_token resp \<and>
          getUserTokens (fst (snd (getValidAccessToken c cfg fetch now env db usr requiredScopes)))
            (u_id usr) = Some row \<and>
          encrypt c (iv_access env) tok = Inr (t_access_token row) \<and>
          t_expires_at row = now_refresh env + tr_expires_in resp * 1000 \<and>
          t_updated_at row = now_save env))"
proof -
  let ?g = "getValidAccessToken c cfg fetch now env db usr requiredScopes"
  have 1: "snd (snd ?g) \<longleftrightarrow>
       (\<not> isl (decrypt c (t_access_token tokens)) \<and> \<not> isl (decrypt c (t_refresh_token tokens)) \<and>
        missing_for requiredScopes (t_granted_scopes tokens) = [] \<and>
        t_expires_at tokens - 60000 \<le> now)"
    using assms by (rule gva_flag)
  have 2: "\<forall>tok. fst ?g = Inr tok \<longrightarrow> (snd (snd ?g) \<longleftrightarrow> t_expires_at tokens - 60000 \<le> now)"
    using 1 gva_returns [OF assms] by blast
  have 3: "\<forall>tok. fst ?g = Inr tok \<and> now < t_expires_at tokens - 60000 \<longrightarrow>
       decrypt c (t_access_token tokens) = Inr tok \<and> fst (snd ?g) = db"
  proof (intro allI impI)
    fix tok assume a: "fst ?g = Inr tok \<and> now < t_expires_at tokens - 60000"
    with gva_returns [OF assms] obtain acc r where d: "decrypt c (t_access_token tokens) = Inr acc"
      "decrypt c (t_refresh_token tokens) = Inr r"
      and m: "missing_for requiredScopes (t_granted_scopes tokens) = []"
      by (cases "decrypt c (t_access_token tokens)"; cases "decrypt c (t_refresh_token tokens)")
         fastforce+
    from a have w: "\<not> t_expires_at tokens - 60000 \<le> now" by simp
    from a m w show "decrypt c (t_access_token tokens) = Inr tok \<and> fst (snd ?g) = db"
      by (simp add: gva_decrypted [OF assms d] d)
  qed
  have 4: "\<not> snd (snd ?g) \<longrightarrow> fst (snd ?g) = db"
    using gva_no_refresh_store [OF assms] by blast
  have 5: "\<forall>access refresh.
       decrypt c (t_access_token tokens) = Inr access \<and>
       decrypt c (t_refresh_token tokens) = Inr refresh \<and>
       missing_for requiredScopes (t_granted_scopes tokens) = [] \<and>
       t_expires_at tokens - 60000 \<le> now \<longrightarrow>
       fst ?g =
         map_sum id td_access_token
           (fst (refreshTokens c cfg fetch env db usr
                   \<lparr> td_access_token = access, td_refresh_token = refresh,
                     td_expires_at = t_expires_at tokens,
                     td_scope = t_granted_scopes tokens \<rparr>)) \<and>
       fst (snd ?g) =
         snd (refreshTokens c cfg fetch env db usr
                \<lparr> td_access_token = access, td_refresh_token = refresh,
                  td_expires_at = t_expires_at tokens,
                  td_scope = t_granted_scopes tokens \<rparr>)"
    using gva_in_window [OF assms] by blast
  have 6: "\<forall>tok. fst ?g = Inr tok \<and> t_expires_at tokens - 60000 \<le> now \<longrightarrow>
       (\<exists>refresh resp row.
          decrypt c (t_refresh_token tokens) = Inr refresh \<and>
          fetch \<lparr> rq_refresh_token = refresh, rq_client_id = clientId cfg,
                  rq_client_secret = clientSecret cfg \<rparr> = Ok resp \<and>
          tok = tr_access_token resp \<and>
          getUserTokens (fst (snd ?g)) (u_id usr) = Some row \<and>
          encrypt c (iv_access env) tok = Inr (t_access_token row) \<and>
          t_expires_at row = now_refresh env + tr_expires_in resp * 1000 \<and>
          t_updated_at row = now_save env)"
  proof (intro allI impI)
    fix tok assume a: "fst ?g = Inr tok \<and> t_expires_at tokens - 60000 \<le> now"
    with gva_returns [OF assms] obtain acc r where d: "decrypt c (t_access_token tokens) = Inr acc"
      "decrypt c (t_refresh_token tokens) = Inr r"
      and m: "missing_for requiredScopes (t_granted_scopes tokens) = []"
      by (cases "decrypt c (t_access_token tokens)"; cases "decrypt c (t_refresh_token tokens)")
         fastforce+
    let ?cur = "\<lparr> td_access_token = acc, td_refresh_token = r,
                  td_expires_at = t_expires_at tokens,
                  td_scope = t_granted_scopes tokens \<rparr>"
    let ?r = "refreshTokens c cfg fetch env db usr ?cur"
    from a have w: "t_expires_at tokens - 60000 \<le> now" by simp
    from gva_in_window [OF assms d m w, of cfg fetch env]
    have g: "fst ?g = map_sum id td_access_token (fst ?r)" "fst (snd ?g) = snd ?r"
      by simp_all
    from g(1) a obtain nt where nt: "fst ?r = Inr nt" "tok = td_access_token nt"
      by (cases "fst ?r") auto
    then have "?r = (Inr nt, snd ?r)"
      by (metis prod.collapse)
    from refreshTokens_Inr [OF this] obtain resp ea er where
      x: "fetch \<lparr> rq_refresh_token = td_refresh_token ?cur, rq_client_id = clientId cfg,
                  rq_client_secret = clientSecret cfg \<rparr> = Ok resp"
        "encrypt c (iv_access env) (tr_access_token resp) = Inr ea"
        "td_access_token nt = tr_access_token resp"
        "snd ?r = saveUserTokens db (now_save env) (u_id usr)
           \<lparr> f_x_user_id = u_x_user_id usr,
             f_granted_scopes = str_or_else (tr_scope resp) (td_scope ?cur),
             f_access_token = ea,
             f_refresh_token = er,
             f_expires_at = now_refresh env + tr_expires_in resp * 1000 \<rparr>"
      by blast
    let ?row = "\<lparr> t_user_id = u_id usr, t_provider = ''x'', t_x_user_id = u_x_user_id usr,
            t_granted_scopes = str_or_else (tr_scope resp) (td_scope ?cur),
            t_access_token = ea, t_refresh_token = er,
            t_expires_at = now_refresh env + tr_expires_in resp * 1000,
            t_created_at = (case getUserTokens db (u_id usr) of
                              None \<Rightarrow> now_save env | Some old \<Rightarrow> t_created_at old),
            t_updated_at = now_save env \<rparr>"
    have row: "getUserTokens (fst (snd ?g)) (u_id usr) = Some ?row"
      unfolding g(2) x(4) by (simp add: getUserTokens_save)
    from x(1) have f: "fetch \<lparr> rq_refresh_token = r, rq_client_id = clientId cfg,
                  rq_client_secret = clientSecret cfg \<rparr> = Ok resp"
      by simp
    have tk: "tok = tr_access_token resp"
      using nt(2) x(3) by simp
    have en: "encrypt c (iv_access env) tok = Inr (t_access_token ?row)"
      using x(2) tk by simp
    have ex: "t_expires_at ?row = now_refresh env + tr_expires_in resp * 1000"
      and up: "t_updated_at ?row = now_save env"
      by simp_all
    from d(2) f tk row en ex up
    show "\<exists>refresh resp row.
          decrypt c (t_refresh_token tokens) = Inr refresh \<and>
          fetch \<lparr> rq_refresh_token = refresh, rq_client_id = clientId cfg,
                  rq_client_secret = clientSecret cfg \<rparr> = Ok resp \<and>
          tok = tr_access_token resp \<and>
          getUserTokens (fst (snd ?g)) (u_id usr) = Some row \<and>
          encrypt c (iv_access env) tok = Inr (t_access_token row) \<and>
          t_expires_at row = now_refresh env + tr_expires_in resp * 1000 \<and>
          t_updated_at row = now_save env"
      by blast
  qed
  from 1 2 3 4 5 6 show ?thesis by blast
qed

text \<open>
  Claim C4, as the code has it. Without a stored token row, and with a row whose
  access or refresh token does not decrypt, \<open>getValidAccessToken\<close> fails with
  \<open>auth_reauth_required\<close> and the login hint, returns no token, and neither changes the
  store nor calls the token endpoint. These are not the only such failures: the one
  other way to \<open>auth_reauth_required\<close> is through a refresh that was attempted.
\<close>

theorem getValidAccessToken_reauth:
  "(getUserTokens db (u_id usr) = None \<longrightarrow>
      getValidAccessToken c cfg fetch now env db usr requiredScopes =
        (Inl (createAuthError auth_reauth_required
                (''No tokens found for user '' @ u_x_username usr @ ''. Please authenticate.'')
                (Some (getLoginUrl cfg)) None),
         db, False)) \<and>
   (\<forall>tokens. getUserTokens db (u_id usr) = Some tokens \<and>
        (isl (decrypt c (t_access_token tokens)) \<or> isl (decrypt c (t_refresh_token tokens))) \<longrightarrow>
      getValidAccessToken c cfg fetch now env db usr requiredScopes =
        (Inl (createAuthError auth_reauth_required
                ''Token decryption failed. Please re-authenticate.''
                (Some (getLoginUrl cfg)) None),
         db, False)) \<and>
   (is_reauth (fst (getValidAccessToken c cfg fetch now env db usr requiredScopes)) \<longrightarrow>
      getUserTokens db (u_id usr) = None \<or>
      (\<exists>tokens. getUserTokens db (u_id usr) = Some tokens \<and>
         (isl (decrypt c (t_access_token tokens)) \<or> isl (decrypt c (t_refresh_token tokens)))) \<or>
      snd (snd (getValidAccessToken c cfg fetch now env db usr requiredScopes)))"
proof -
  let ?g = "getValidAccessToken c cfg fetch now env db usr requiredScopes"
  have 3: "is_reauth (fst ?g) \<longrightarrow>
      getUserTokens db (u_id usr) = None \<or>
      (\<exists>tokens. getUserTokens db (u_id usr) = Some tokens \<and>
         (isl (decrypt c (t_access_token tokens)) \<or> isl (decrypt c (t_refresh_token tokens)))) \<or>
      snd (snd ?g)"
  proof (cases "getUserTokens db (u_id usr)")
    case None
    then show ?thesis by simp
  next
    case (Some tokens)
    show ?thesis
    proof (cases "isl (decrypt c (t_access_token tokens)) \<or> isl (decrypt c (t_refresh_token tokens))")
      case True
      with Some show ?thesis by blast
    next
      case False
      then obtain a r where d: "decrypt c (t_access_token tokens) = Inr a"
          "decrypt c (t_refresh_token tokens) = Inr r"
        by (cases "decrypt c (t_access_token tokens)"; cases "decrypt c (t_refresh_token tokens)") auto
      show ?thesis
        by (auto simp: gva_decrypted [OF Some d] Let_def is_reauth_def createAuthError_def
                 split: prod.splits sum.splits)
    qed
  qed
  show ?thesis
    using 3 by (auto simp: gva_no_tokens gva_decrypt_fail)
qed


text \<open>
  The theorem on the sample row, which expires at 130000: at time 100000 (30 seconds
  before expiry) the call refreshes, returns the new token \<open>AT2\<close> of the answer and
  leaves it stored, encrypted, with the new expiry; at time 69999 (more than 60 seconds
  before expiry) it returns the stored token \<open>AT\<close> without a refresh and the store is
  as it was.
\<close>

theorem getValidAccessToken_refresh_window_witness:
  "getUserTokens sample_tokens_db (u_id sample_user) = Some sample_token_row \<and>
   t_expires_at sample_token_row = 100000 + 30000 \<and>
   fst (getValidAccessToken sample_crypto sample_cfg (\<lambda>rq. Ok sample_response) 100000
          sample_env sample_tokens_db sample_user None) = Inr ''AT2'' \<and>
   snd (snd (getValidAccessToken sample_crypto sample_cfg (\<lambda>rq. Ok sample_response) 100000
          sample_env sample_tokens_db sample_user None)) \<and>
   getUserTokens
     (fst (snd (getValidAccessToken sample_crypto sample_cfg (\<lambda>rq. Ok sample_response) 100000
          sample_env sample_tokens_db sample_user None))) 1 =
     Some \<lparr> t_user_id = 1, t_provider = ''x'', t_x_user_id = ''u1'',
            t_granted_scopes = ''users.read tweet.read'',
            t_access_token = ''000102030405060708090a0b0c0d0e0f:01415432'',
            t_refresh_token = ''ff0102030405060708090a0b0c0d0e0f:015254'',
            t_expires_at = 7300001, t_created_at = 0, t_updated_at = 100002 \<rparr> \<and>
   fst (getValidAccessToken sample_crypto sample_cfg (\<lambda>rq. Ok sample_response) 69999
          sample_env sample_tokens_db sample_user None) = Inr ''AT'' \<and>
   \<not> snd (snd (getValidAccessToken sample_crypto sample_cfg (\<lambda>rq. Ok sample_response) 69999
          sample_env sample_tokens_db sample_user None)) \<and>
   fst (snd (getValidAccessToken sample_crypto sample_cfg (\<lambda>rq. Ok sample_response) 69999
          sample_env sample_tokens_db sample_user None)) = sample_tokens_db"
proof -
  note near_t = getValidAccessToken_refresh_window [of sample_tokens_db sample_user
      sample_token_row sample_crypto sample_cfg "\<lambda>rq. Ok sample_response" 100000 sample_env None]
  note far_t = getValidAccessToken_refresh_window [of sample_tokens_db sample_user
      sample_token_row sample_crypto sample_cfg "\<lambda>rq. Ok sample_response" 69999 sample_env None]
  have row: "getUserTokens sample_tokens_db (u_id sample_user) = Some sample_token_row"
    by (simp add: getUserTokens_def sample_tokens_db_def sample_token_row_def sample_user_def)
  have ex: "t_expires_at sample_token_row = 100000 + 30000"
    by (simp add: sample_token_row_def)
  have near: "fst (getValidAccessToken sample_crypto sample_cfg (\<lambda>rq. Ok sample_response) 100000
          sample_env sample_tokens_db sample_user None) = Inr ''AT2''"
    by code_simp
  have stored: "getUserTokens
     (fst (snd (getValidAccessToken sample_crypto sample_cfg (\<lambda>rq. Ok sample_response) 100000
          sample_env sample_tokens_db sample_user None))) 1 =
     Some \<lparr> t_user_id = 1, t_provider = ''x'', t_x_user_id = ''u1'',
            t_granted_scopes = ''users.read tweet.read'',
            t_access_token = ''000102030405060708090a0b0c0d0e0f:01415432'',
            t_refresh_token = ''ff0102030405060708090a0b0c0d0e0f:015254'',
            t_expires_at = 7300001, t_created_at = 0, t_updated_at = 100002 \<rparr>"
    by code_simp
  have far: "fst (getValidAccessToken sample_crypto sample_cfg (\<lambda>rq. Ok sample_response) 69999
          sample_env sample_tokens_db sample_user None) = Inr ''AT''"
    by code_simp
  have w1: "t_expires_at sample_token_row - 60000 \<le> 100000"
    and w2: "\<not> t_expires_at sample_token_row - 60000 \<le> 69999"
    and w3: "69999 < t_expires_at sample_token_row - 60000"
    by (simp_all add: sample_token_row_def)
  from near_t [OF row] near w1
  have a: "snd (snd (getValidAccessToken sample_crypto sample_cfg (\<lambda>rq. Ok sample_response) 100000
          sample_env sample_tokens_db sample_user None))"
    by blast
  from far_t [OF row] far w2
  have b: "\<not> snd (snd (getValidAccessToken sample_crypto sample_cfg (\<lambda>rq. Ok sample_response) 69999
          sample_env sample_tokens_db sample_user None))"
    by blast
  from far_t [OF row] far w3
  have c: "fst (snd (getValidAccessToken sample_crypto sample_cfg (\<lambda>rq. Ok sample_response) 69999
          sample_env sample_tokens_db sample_user None)) = sample_tokens_db"
    by blast
  from row ex near stored far a b c show ?thesis by blast
qed

text \<open>
  The claim as stated fails: here the user has a token row and both secrets decrypt,
  yet the call fails with \<open>auth_reauth_required\<close>, because the token is within the
  refresh window and the token endpoint answers the refresh with an error. The row is
  deleted on the way.
\<close>

theorem getValidAccessToken_reauth_counterexample:
  "getUserTokens sample_tokens_db (u_id sample_user) = Some sample_token_row \<and>
   decrypt sample_crypto (t_access_token sample_token_row) = Inr ''AT'' \<and>
   decrypt sample_crypto (t_refresh_token sample_token_row) = Inr ''RT'' \<and>
   getValidAccessToken sample_crypto sample_cfg (\<lambda>rq. NotOk ''invalid_grant'') 100000
       sample_env sample_tokens_db sample_user None =
     (Inl (AuthErr \<lparr> code = auth_reauth_required,
                       message = ''Token refresh failed. Please re-authenticate.'',
                       login_url = Some ''Please run: npm run auth'',
                       missing_scopes = None \<rparr>),
      sample_db, True)"
  by code_simp

text \<open>
  The theorem on the sample store: without a token row, and with a row whose access
  token was corrupted into a ciphertext segment of odd length.
\<close>

theorem getValidAccessToken_reauth_witness:
  "getValidAccessToken sample_crypto sample_cfg (\<lambda>rq. Ok sample_response) 100000
       sample_env sample_db sample_user None =
     (Inl (AuthErr \<lparr> code = auth_reauth_required,
                       message = ''No tokens found for user alice. Please authenticate.'',
                       login_url = Some ''Please run: npm run auth'',
                       missing_scopes = None \<rparr>),
      sample_db, False) \<and>
   getValidAccessToken sample_crypto sample_cfg (\<lambda>rq. Ok sample_response) 100000 sample_env
       (sample_db\<lparr>user_tokens := [sample_token_row\<lparr>t_access_token := ''00:0141540''\<rparr>]\<rparr>)
       sample_user None =
     (Inl (AuthErr \<lparr> code = auth_reauth_required,
                       message = ''Token decryption failed. Please re-authenticate.'',
                       login_url = Some ''Please run: npm run auth'',
                       missing_scopes = None \<rparr>),
      sample_db\<lparr>user_tokens := [sample_token_row\<lparr>t_access_token := ''00:0141540''\<rparr>]\<rparr>, False)"
proof -
  let ?bad = "sample_db\<lparr>user_tokens := [sample_token_row\<lparr>t_access_token := ''00:0141540''\<rparr>]\<rparr>"
  have none: "getUserTokens sample_db (u_id sample_user) = None"
    by (simp add: getUserTokens_def sample_db_def)
  have row: "getUserTokens ?bad (u_id sample_user)
      = Some (sample_token_row\<lparr>t_access_token := ''00:0141540''\<rparr>)"
    by (simp add: getUserTokens_def sample_token_row_def sample_user_def)
  have bad: "isl (decrypt sample_crypto (t_access_token (sample_token_row\<lparr>t_access_token := ''00:0141540''\<rparr>)))"
    by code_simp
  have url: "getLoginUrl sample_cfg = ''Please run: npm run auth''"
    by (simp add: getLoginUrl_def hosted_base_def sample_cfg_def)
  have name: "u_x_username sample_user = ''alice''"
    by (simp add: sample_user_def)
  from getValidAccessToken_reauth [of sample_db sample_user sample_crypto sample_cfg
      "\<lambda>rq. Ok sample_response" 100000 sample_env None] none
  have a: "getValidAccessToken sample_crypto sample_cfg (\<lambda>rq. Ok sample_response) 100000
       sample_env sample_db sample_user None =
        (Inl (createAuthError auth_reauth_required
                (''No tokens found for user '' @ u_x_username sample_user @ ''. Please authenticate.'')
                (Some (getLoginUrl sample_cfg)) None),
         sample_db, False)"
    by blast
  from getValidAccessToken_reauth [of ?bad sample_user sample_crypto sample_cfg
      "\<lambda>rq. Ok sample_response" 100000 sample_env None] row bad
  have b: "getValidAccessToken sample_crypto sample_cfg (\<lambda>rq. Ok sample_response) 100000
       sample_env ?bad sample_user None =
        (Inl (createAuthError auth_reauth_required
                ''Token decryption failed. Please re-authenticate.''
                (Some (getLoginUrl sample_cfg)) None),
         ?bad, False)"
    by blast
  from a b show ?thesis
    by (simp add: url name createAuthError_def)
qed

section \<open>Token refresh\<close>




section \<open>Scope checks\<close>

lemma checkScopes_list_singular:
  "checkScopes ''users.read bookmark.read'' (getToolScopes ''bookmarks.list'') = [''bookmarks.read'']"
  by code_simp

lemma checkScopes_add_scenario:
  "checkScopes ''users.read tweet.read'' (getToolScopes ''bookmarks.add'') = [''bookmark.write'']"
  by code_simp

text \<open>
  The write scope has no alias at all: a granted \<open>bookmarks.write\<close> does not satisfy
  the \<open>bookmark.write\<close> that \<open>bookmarks.add\<close> requires.
\<close>

lemma checkScopes_add_plural:
  "checkScopes ''users.read bookmarks.write'' (getToolScopes ''bookmarks.add'') = [''bookmark.write'']"
  by code_simp

lemma set_checkScopes:
  "set (checkScopes granted required) =
     {r \<in> set required. r \<notin> set (split_on CHR '' '' granted) \<and>
        \<not> (r = ''bookmark.read'' \<and> ''bookmarks.read'' \<in> set (split_on CHR '' '' granted))}"
  by (auto simp: checkScopes_def Let_def)

lemma validateToolAccess_missing:
  assumes "getUserTokens db (u_id usr) = Some tokens"
    and "decrypt c (t_access_token tokens) = Inr access"
    and "decrypt c (t_refresh_token tokens) = Inr refresh"
    and "checkScopes (t_granted_scopes tokens) (getToolScopes toolName) = missing"
    and "missing \<noteq> []"
  shows "validateToolAccess c cfg fetch now env db usr toolName =
     (Inl (createAuthError auth_scope_insufficient
             (''Missing required scopes: '' @ join '', '' missing)
             (Some (getReAuthUrl cfg missing)) (Some missing)),
      db, False)"
  using assms(4,5)
  by (simp add: validateToolAccess_def gva_decrypted [OF assms(1,2,3)] missing_for_def Let_def)

text \<open>
  Claim C8, evaluated on the code. For a user whose stored tokens decrypt,
  \<open>validateToolAccess\<close> fails with \<open>auth_scope_insufficient\<close> whenever \<open>checkScopes\<close>
  returns a scope, and the error carries exactly that list. \<open>checkScopes\<close> keeps a
  required scope when it is not among the granted ones, except that a required
  \<open>bookmark.read\<close> is also satisfied by a granted \<open>bookmarks.read\<close>; the converse is
  not built in. So the scenario of the claim holds (\<open>bookmarks.add\<close> with
  \<open>users.read tweet.read\<close> granted lists \<open>bookmark.write\<close>), but \<open>bookmarks.list\<close>,
  whose table entry names both spellings, fails for a user who was granted the
  singular \<open>bookmark.read\<close>, listing \<open>bookmarks.read\<close> as missing.
\<close>

theorem validateToolAccess_scopes:
  assumes "getUserTokens db (u_id usr) = Some tokens"
    and "decrypt c (t_access_token tokens) = Inr access"
    and "decrypt c (t_refresh_token tokens) = Inr refresh"
  shows
   "(t_granted_scopes tokens = ''users.read bookmark.read'' \<longrightarrow>
       validateToolAccess c cfg fetch now env db usr ''bookmarks.list'' =
         (Inl (createAuthError auth_scope_insufficient
                 ''Missing required scopes: bookmarks.read''
                 (Some (getReAuthUrl cfg [''bookmarks.read''])) (Some [''bookmarks.read''])),
          db, False)) \<and>
    (t_granted_scopes tokens = ''users.read tweet.read'' \<longrightarrow>
       validateToolAccess c cfg fetch now env db usr ''bookmarks.add'' =
         (Inl (createAuthError auth_scope_insufficient
                 ''Missing required scopes: bookmark.write''
                 (Some (getReAuthUrl cfg [''bookmark.write''])) (Some [''bookmark.write''])),
          db, False)) \<and>
    (checkScopes (t_granted_scopes tokens) (getToolScopes toolName) \<noteq> [] \<longrightarrow>
       validateToolAccess c cfg fetch now env db usr toolName =
         (Inl (createAuthError auth_scope_insufficient
                 (''Missing required scopes: '' @
                    join '', '' (checkScopes (t_granted_scopes tokens) (getToolScopes toolName)))
                 (Some (getReAuthUrl cfg
                    (checkScopes (t_granted_scopes tokens) (getToolScopes toolName))))
                 (Some (checkScopes (t_granted_scopes tokens) (getToolScopes toolName)))),
          db, False)) \<and>
    set (checkScopes (t_granted_scopes tokens) (getToolScopes toolName)) =
      {r \<in> set (getToolScopes toolName).
         r \<notin> set (split_on CHR '' '' (t_granted_scopes tokens)) \<and>
         \<not> (r = ''bookmark.read'' \<and>
            ''bookmarks.read'' \<in> set (split_on CHR '' '' (t_granted_scopes tokens)))}"
proof -
  have 1: "t_granted_scopes tokens = ''users.read bookmark.read'' \<longrightarrow>
       validateToolAccess c cfg fetch now env db usr ''bookmarks.list'' =
         (Inl (createAuthError auth_scope_insufficient
                 ''Missing required scopes: bookmarks.read''
                 (Some (getReAuthUrl cfg [''bookmarks.read''])) (Some [''bookmarks.read''])),
          db, False)"
  proof
    assume g: "t_granted_scopes tokens = ''users.read bookmark.read''"
    have "checkScopes (t_granted_scopes tokens) (getToolScopes ''bookmarks.list'') = [''bookmarks.read'']"
      unfolding g by (rule checkScopes_list_singular)
    from validateToolAccess_missing [OF assms this] show "validateToolAccess c cfg fetch now env db usr ''bookmarks.list'' =
         (Inl (createAuthError auth_scope_insufficient
                 ''Missing required scopes: bookmarks.read''
                 (Some (getReAuthUrl cfg [''bookmarks.read''])) (Some [''bookmarks.read''])),
          db, False)"
      by simp
  qed
  have 2: "t_granted_scopes tokens = ''users.read tweet.read'' \<longrightarrow>
       validateToolAccess c cfg fetch now env db usr ''bookmarks.add'' =
         (Inl (createAuthError auth_scope_insufficient
                 ''Missing required scopes: bookmark.write''
                 (Some (getReAuthUrl cfg [''bookmark.write''])) (Some [''bookmark.write''])),
          db, False)"
  proof
    assume g: "t_granted_scopes tokens = ''users.read tweet.read''"
    have "checkScopes (t_granted_scopes tokens) (getToolScopes ''bookmarks.add'') = [''bookmark.write'']"
      unfolding g by (rule checkScopes_add_scenario)
    from validateToolAccess_missing [OF assms this] show "validateToolAccess c cfg fetch now env db usr ''bookmarks.add'' =
         (Inl (createAuthError auth_scope_insufficient
                 ''Missing required scopes: bookmark.write''
                 (Some (getReAuthUrl cfg [''bookmark.write''])) (Some [''bookmark.write''])),
          db, False)"
      by simp
  qed
  have 3: "checkScopes (t_granted_scopes tokens) (getToolScopes toolName) \<noteq> [] \<longrightarrow>
       validateToolAccess c cfg fetch now env db usr toolName =
         (Inl (createAuthError auth_scope_insufficient
                 (''Missing required scopes: '' @
                    join '', '' (checkScopes (t_granted_scopes tokens) (getToolScopes toolName)))
                 (Some (getReAuthUrl cfg
                    (checkScopes (t_granted_scopes tokens) (getToolScopes toolName))))
                 (Some (checkScopes (t_granted_scopes tokens) (getToolScopes toolName)))),
          db, False)"
    using validateToolAccess_missing [OF assms refl] by blast
  from 1 2 3 set_checkScopes show ?thesis by blast
qed


text \<open>
  The theorem on the sample stores, in local mode: the singular read scope is granted
  and \<open>bookmarks.list\<close> is refused; \<open>bookmarks.add\<close> is refused for want of the
  write scope.
\<close>

theorem validateToolAccess_scopes_witness:
  "validateToolAccess sample_crypto sample_cfg (\<lambda>rq. Ok sample_response) 1000 sample_env
       sample_singular_db sample_user ''bookmarks.list'' =
     (Inl (AuthErr \<lparr> code = auth_scope_insufficient,
                       message = ''Missing required scopes: bookmarks.read'',
                       login_url =
                         Some ''Please re-authenticate with additional scopes: bookmarks.read'',
                       missing_scopes = Some [''bookmarks.read''] \<rparr>),
      sample_singular_db, False) \<and>
   validateToolAccess sample_crypto sample_cfg (\<lambda>rq. Ok sample_response) 1000 sample_env
       sample_tokens_db sample_user ''bookmarks.add'' =
     (Inl (AuthErr \<lparr> code = auth_scope_insufficient,
                       message = ''Missing required scopes: bookmark.write'',
                       login_url =
                         Some ''Please re-authenticate with additional scopes: bookmark.write'',
                       missing_scopes = Some [''bookmark.write''] \<rparr>),
      sample_tokens_db, False)"
proof -
  let ?row = "sample_token_row\<lparr>t_granted_scopes := ''users.read bookmark.read''\<rparr>"
  have r1: "getUserTokens sample_singular_db (u_id sample_user) = Some ?row"
    by (simp add: getUserTokens_def sample_singular_db_def sample_token_row_def sample_user_def)
  have r2: "getUserTokens sample_tokens_db (u_id sample_user) = Some sample_token_row"
    by (simp add: getUserTokens_def sample_tokens_db_def sample_token_row_def sample_user_def)
  have a1: "decrypt sample_crypto (t_access_token ?row) = Inr ''AT''"
    and a2: "decrypt sample_crypto (t_refresh_token ?row) = Inr ''RT''"
    and b1: "decrypt sample_crypto (t_access_token sample_token_row) = Inr ''AT''"
    and b2: "decrypt sample_crypto (t_refresh_token sample_token_row) = Inr ''RT''"
    by code_simp+
  have g1: "t_granted_scopes ?row = ''users.read bookmark.read''"
    by simp
  have g2: "t_granted_scopes sample_token_row = ''users.read tweet.read''"
    by (simp add: sample_token_row_def)
  have u1: "getReAuthUrl sample_cfg [''bookmarks.read''] =
      ''Please re-authenticate with additional scopes: bookmarks.read''"
    and u2: "getReAuthUrl sample_cfg [''bookmark.write''] =
      ''Please re-authenticate with additional scopes: bookmark.write''"
    by (simp_all add: getReAuthUrl_def hosted_base_def sample_cfg_def)
  from validateToolAccess_scopes [OF r1 a1 a2, of sample_cfg "\<lambda>rq. Ok sample_response" 1000
      sample_env "''bookmarks.list''"] g1
  have x: "validateToolAccess sample_crypto sample_cfg (\<lambda>rq. Ok sample_response) 1000 sample_env
       sample_singular_db sample_user ''bookmarks.list'' =
         (Inl (createAuthError auth_scope_insufficient
                 ''Missing required scopes: bookmarks.read''
                 (Some (getReAuthUrl sample_cfg [''bookmarks.read''])) (Some [''bookmarks.read''])),
          sample_singular_db, False)"
    by blast
  from validateToolAccess_scopes [OF r2 b1 b2, of sample_cfg "\<lambda>rq. Ok sample_response" 1000
      sample_env "''bookmarks.list''"] g2
  have y: "validateToolAccess sample_crypto sample_cfg (\<lambda>rq. Ok sample_response) 1000 sample_env
       sample_tokens_db sample_user ''bookmarks.add'' =
         (Inl (createAuthError auth_scope_insufficient
                 ''Missing required scopes: bookmark.write''
                 (Some (getReAuthUrl sample_cfg [''bookmark.write''])) (Some [''bookmark.write''])),
          sample_tokens_db, False)"
    by blast
  from x y show ?thesis
    by (simp add: u1 u2 createAuthError_def)
qed

end
